theory Spec2Isabelle
  imports Complex_Main
begin

section \<open>Values exchanged with the client\<close>

text \<open>
  A string is a sequence of UTF-16 code units, as in JavaScript, so that the length
  of a list is the \<open>length\<close> that the language and the schema validators count. A
  character here is a code unit below 256, which is its Latin-1 character: the
  accented letters of the Spanish messages are one character each, and code units
  from U+0100 on are outside the model. Object identifiers are natural numbers;
  \<open>JId\<close> is an identifier as it appears in a response. Numbers of a request are
  finite decimal literals and are kept exact.
\<close>

type_synonym oid = nat

datatype json =
    JNull
  | JBool bool
  | JNum real
  | JStr string
  | JId oid
  | JArr "json list"
  | JObj "(string \<times> json) list"

abbreviation (input) a_acute :: string where "a_acute \<equiv> [CHR 0xE1]"
abbreviation (input) e_acute :: string where "e_acute \<equiv> [CHR 0xE9]"
abbreviation (input) i_acute :: string where "i_acute \<equiv> [CHR 0xED]"
abbreviation (input) o_acute :: string where "o_acute \<equiv> [CHR 0xF3]"
abbreviation (input) n_tilde :: string where "n_tilde \<equiv> [CHR 0xF1]"
abbreviation (input) dquote :: string where "dquote \<equiv> [CHR 0x22]"

record response =
  status :: nat
  body :: json

text \<open>\<open>res.status(c).json({ success: false, message: m })\<close>\<close>

definition fail :: "nat \<Rightarrow> string \<Rightarrow> response" where
  "fail c m = \<lparr>status = c, body = JObj [(''success'', JBool False), (''message'', JStr m)]\<rparr>"

text \<open>\<open>res.status(400).json({ success: false, message: m, errors })\<close>\<close>

definition fail_errors :: "string \<Rightarrow> string list \<Rightarrow> response" where
  "fail_errors m es = \<lparr>status = 400, body = JObj [(''success'', JBool False),
     (''message'', JStr m), (''errors'', JArr (map JStr es))]\<rparr>"

text \<open>
  The last branch of every \<open>catch\<close>. \<open>NODE_ENV\<close> is taken to differ from
  \<open>development\<close>, so the \<open>error\<close> field is \<open>undefined\<close> and is dropped when the
  object is serialised.
\<close>

definition internal_error :: response where
  "internal_error = fail 500 ''Error interno del servidor''"

text \<open>What a store call or a model method can throw.\<close>

datatype exn =
    ValidationError "string list"
  | CastError
  | DuplicateKey
  | Error string

subsection \<open>JavaScript primitives\<close>

text \<open>Truthiness of a value that is a string or \<open>undefined\<close>.\<close>

definition truthy :: "string option \<Rightarrow> bool" where
  "truthy v = (case v of None \<Rightarrow> False | Some s \<Rightarrow> s \<noteq> [])"

text \<open>Truthiness of a JSON value or \<open>undefined\<close>: \<open>null\<close>, \<open>false\<close>, 0 and the empty
  string are the values of a request body that are not truthy.\<close>

definition truthy_json :: "json option \<Rightarrow> bool" where
  "truthy_json v = (case v of
       None \<Rightarrow> False
     | Some JNull \<Rightarrow> False
     | Some (JBool b) \<Rightarrow> b
     | Some (JNum x) \<Rightarrow> x \<noteq> 0
     | Some (JStr t) \<Rightarrow> t \<noteq> []
     | Some _ \<Rightarrow> True)"

text \<open>The white space and the line terminators of the language below U+0100; they
  are what \<open>trim\<close> removes and what \<open>\s\<close> matches.\<close>

definition is_space :: "char \<Rightarrow> bool" where
  "is_space c = (c = CHR 0x20 \<or> c = CHR 0x09 \<or> c = CHR 0x0A \<or> c = CHR 0x0B
     \<or> c = CHR 0x0C \<or> c = CHR 0x0D \<or> c = CHR 0xA0)"

definition trim :: "string \<Rightarrow> string" where
  "trim s = rev (dropWhile is_space (rev (dropWhile is_space s)))"

text \<open>\<open>toLowerCase\<close>: the capital letters are A to Z and U+00C0 to U+00DE without
  the multiplication sign U+00D7; each has its small letter 32 places further.\<close>

definition lower_char :: "char \<Rightarrow> char" where
  "lower_char c = (let n = (of_char c :: nat) in
     if (65 \<le> n \<and> n \<le> 90) \<or> (192 \<le> n \<and> n \<le> 222 \<and> n \<noteq> 215)
     then char_of (n + 32) else c)"

definition toLowerCase :: "string \<Rightarrow> string" where
  "toLowerCase s = map lower_char s"

section \<open>The documents\<close>

text \<open>
  \<open>models/User.js\<close> and \<open>models/Service.js\<close>. The timestamps and the two date
  fields are left out. A location is the \<open>coordinates\<close> array of a stored point, or
  absent; the defaults that the schema gives to the nested path of a document without
  a location are not modelled. The location of a listing is \<open>ubicacionS\<close>, since a
  field name belongs to one record.
\<close>

record user =
  nombre :: string
  email :: string
  password :: string
  telefono :: "string option"
  rol :: string
  skills :: "string list"
  ubicacion :: "real list option"

record service =
  titulo :: string
  descripcion :: string
  categoria :: string
  estado :: string
  creadoPor :: oid
  ubicacionS :: "real list option"
  precio :: real
  moneda :: string
  duracionEstimada :: real
  unidadDuracion :: string

record store =
  users :: "(oid \<times> user) list"
  services :: "(oid \<times> service) list"

text \<open>The document stored under an identifier.\<close>

definition lookup :: "(oid \<times> 'a) list \<Rightarrow> oid \<Rightarrow> 'a option" where
  "lookup docs i = map_of docs i"

text \<open>
  \<open>req.params.id\<close> is any text of the URL. \<open>Model.findById(id)\<close> casts it to an
  identifier first: a text that is no identifier makes the call throw a
  \<open>CastError\<close>; otherwise the call returns the document with that identifier or
  \<open>null\<close>.
\<close>

datatype id_param = NotObjectId string | ObjectId oid

definition findById :: "(oid \<times> 'a) list \<Rightarrow> id_param \<Rightarrow> exn + (oid \<times> 'a) option" where
  "findById docs p = (case p of
       NotObjectId t \<Rightarrow> Inl CastError
     | ObjectId i \<Rightarrow> Inr (map_option (Pair i) (lookup docs i)))"

text \<open>Writing a document that is already stored back under its identifier.\<close>

definition replace :: "oid \<Rightarrow> 'a \<Rightarrow> (oid \<times> 'a) list \<Rightarrow> (oid \<times> 'a) list" where
  "replace i d docs = map (\<lambda>(j, x). if j = i then (j, d) else (j, x)) docs"

subsection \<open>Validators of the listing schema\<close>

definition categorias :: "string list" where
  "categorias = [''hogar'', ''jardineria'', ''limpieza'', ''reparaciones'', ''transporte'',
     ''tecnologia'', ''educacion'', ''salud'', ''deportes'', ''eventos'', ''otro'']"

definition estados :: "string list" where
  "estados = [''pendiente'', ''en progreso'', ''completado'']"

text \<open>The \<open>validator\<close> function of \<open>ubicacion.coordinates\<close>, the same in both schemas.\<close>

definition coords_ok :: "real list \<Rightarrow> bool" where
  "coords_ok coords = (case coords of
       [] \<Rightarrow> True
     | [lon, lat] \<Rightarrow> - 180 \<le> lon \<and> lon \<le> 180 \<and> - 90 \<le> lat \<and> lat \<le> 90
     | _ \<Rightarrow> False)"

definition v_coords :: "real list option \<Rightarrow> string list" where
  "v_coords u = (case u of None \<Rightarrow> []
     | Some cs \<Rightarrow> if coords_ok cs then []
         else [''Las coordenadas deben ser [longitud, latitud] v'' @ a_acute @ ''lidas''])"

definition v_titulo :: "string \<Rightarrow> string list" where
  "v_titulo t = (if t = [] then [''El t'' @ i_acute @ ''tulo es obligatorio'']
     else if 100 < length t then [''El t'' @ i_acute @ ''tulo no puede exceder 100 caracteres'']
     else [])"

definition v_descripcion :: "string \<Rightarrow> string list" where
  "v_descripcion d = (if d = [] then [''La descripci'' @ o_acute @ ''n es obligatoria'']
     else if 1000 < length d
       then [''La descripci'' @ o_acute @ ''n no puede exceder 1000 caracteres'']
     else [])"

definition v_categoria :: "string \<Rightarrow> string list" where
  "v_categoria c = (if c = [] then [''La categor'' @ i_acute @ ''a es obligatoria'']
     else if c \<notin> set categorias then [''Categor'' @ i_acute @ ''a no v'' @ a_acute @ ''lida'']
     else [])"

definition v_estado :: "string \<Rightarrow> string list" where
  "v_estado e = (if e = [] then [''El estado es obligatorio'']
     else if e \<notin> set estados
       then [''El estado debe ser '' @ dquote @ ''pendiente'' @ dquote @ '', '' @ dquote
             @ ''en progreso'' @ dquote @ '' o '' @ dquote @ ''completado'' @ dquote]
     else [])"

definition v_precio :: "real \<Rightarrow> string list" where
  "v_precio p = (if p < 0 then [''El precio no puede ser negativo''] else [])"

definition v_moneda :: "string \<Rightarrow> string list" where
  "v_moneda m = (if m \<notin> set [''MXN'', ''USD'', ''EUR'']
     then [''`'' @ m @ ''` is not a valid enum value for path `moneda`.''] else [])"

definition v_duracionEstimada :: "real \<Rightarrow> string list" where
  "v_duracionEstimada d = (if d < 1 then [''La duraci'' @ o_acute @ ''n debe ser al menos 1 hora'']
     else [])"

definition v_unidadDuracion :: "string \<Rightarrow> string list" where
  "v_unidadDuracion u = (if u \<notin> set [''horas'', ''dias'', ''semanas'']
     then [''`'' @ u @ ''` is not a valid enum value for path `unidadDuracion`.''] else [])"

text \<open>Validation of a whole listing, as \<open>save\<close> runs it: one message for each failing path.\<close>

definition service_errors :: "service \<Rightarrow> string list" where
  "service_errors d = v_titulo (titulo d) @ v_descripcion (descripcion d)
     @ v_categoria (categoria d) @ v_estado (estado d) @ v_coords (ubicacionS d)
     @ v_precio (precio d) @ v_moneda (moneda d) @ v_duracionEstimada (duracionEstimada d)
     @ v_unidadDuracion (unidadDuracion d)"

text \<open>\<open>this.save()\<close> on a listing loaded from the store: validate, then write.\<close>

definition service_save :: "store \<Rightarrow> oid \<Rightarrow> service \<Rightarrow> exn + (service \<times> store)" where
  "service_save s i d = (if service_errors d \<noteq> [] then Inl (ValidationError (service_errors d))
     else Inr (d, s\<lparr>services := replace i d (services s)\<rparr>))"

subsection \<open>Methods of a listing\<close>

definition puedeSerEditado :: "service \<Rightarrow> bool" where
  "puedeSerEditado d = (estado d = ''pendiente'')"

definition marcarEnProgreso :: "store \<Rightarrow> oid \<Rightarrow> service \<Rightarrow> exn + (service \<times> store)" where
  "marcarEnProgreso s i d = (if estado d = ''pendiente''
     then service_save s i (d\<lparr>estado := ''en progreso''\<rparr>)
     else Inl (Error ''Solo se pueden marcar servicios pendientes como en progreso''))"

definition marcarCompletado :: "store \<Rightarrow> oid \<Rightarrow> service \<Rightarrow> exn + (service \<times> store)" where
  "marcarCompletado s i d = (if estado d = ''en progreso''
     then service_save s i (d\<lparr>estado := ''completado''\<rparr>)
     else Inl (Error ''Solo se pueden marcar servicios en progreso como completados''))"

subsection \<open>Serialisation\<close>

definition json_coords :: "real list option \<Rightarrow> (string \<times> json) list" where
  "json_coords u = (case u of None \<Rightarrow> []
     | Some cs \<Rightarrow> [(''ubicacion'', JObj [(''type'', JStr ''Point''),
                     (''coordinates'', JArr (map JNum cs))])])"

text \<open>\<open>this.toObject()\<close> of a user: every stored field, the hashed password included.\<close>

definition user_toObject :: "oid \<Rightarrow> user \<Rightarrow> (string \<times> json) list" where
  "user_toObject i u = [(''_id'', JId i), (''nombre'', JStr (nombre u)),
     (''email'', JStr (email u)), (''password'', JStr (password u))]
     @ (case telefono u of None \<Rightarrow> [] | Some t \<Rightarrow> [(''telefono'', JStr t)])
     @ [(''rol'', JStr (rol u)), (''skills'', JArr (map JStr (skills u)))]
     @ json_coords (ubicacion u)"

text \<open>\<open>delete userObject.password\<close>\<close>

definition delete_key :: "string \<Rightarrow> (string \<times> json) list \<Rightarrow> (string \<times> json) list" where
  "delete_key k kvs = filter (\<lambda>(k', v). k' \<noteq> k) kvs"

definition user_toJSON :: "oid \<Rightarrow> user \<Rightarrow> json" where
  "user_toJSON i u = JObj (delete_key ''password'' (user_toObject i u))"

text \<open>
  \<open>populate('creadoPor', sel)\<close>: the owner's document reduced to its identifier
  and the listed fields, or \<open>null\<close> when the identifier resolves to no user.
\<close>

definition populate :: "store \<Rightarrow> string list \<Rightarrow> oid \<Rightarrow> json" where
  "populate s sel i = (case lookup (users s) i of
       None \<Rightarrow> JNull
     | Some u \<Rightarrow> JObj (filter (\<lambda>(k, v). k = ''_id'' \<or> k \<in> set sel) (user_toObject i u)))"

definition service_toJSON :: "store \<Rightarrow> string list \<Rightarrow> oid \<Rightarrow> service \<Rightarrow> json" where
  "service_toJSON s sel i d = JObj ([(''_id'', JId i), (''titulo'', JStr (titulo d)),
     (''descripcion'', JStr (descripcion d)), (''categoria'', JStr (categoria d)),
     (''estado'', JStr (estado d)), (''creadoPor'', populate s sel (creadoPor d))]
     @ json_coords (ubicacionS d)
     @ [(''precio'', JNum (precio d)), (''moneda'', JStr (moneda d)),
        (''duracionEstimada'', JNum (duracionEstimada d)),
        (''unidadDuracion'', JStr (unidadDuracion d))])"

abbreviation (input) owner_fields :: "string list" where
  "owner_fields \<equiv> [''nombre'', ''email'', ''telefono'', ''rol'']"

section \<open>Changing the status of a listing\<close>

text \<open>
  \<open>updateServiceStatus\<close> of \<open>controllers/serviceController.js\<close>. The arguments are
  the store, \<open>req.user._id\<close>, \<open>req.params.id\<close> and \<open>req.body.nuevoEstado\<close>, any JSON
  value or \<open>undefined\<close>. \<open>includes\<close> holds of a string of the list and of nothing
  else; \<open>estado_valido\<close> returns that string. What \<open>findById\<close> or \<open>save\<close> throws
  reaches the \<open>catch\<close>, which answers 500.
\<close>

definition estado_valido :: "json option \<Rightarrow> string option" where
  "estado_valido v = (case v of
       Some (JStr e) \<Rightarrow> if e \<in> set [''pendiente'', ''en progreso'', ''completado'']
                          then Some e else None
     | _ \<Rightarrow> None)"

definition updateServiceStatus ::
  "store \<Rightarrow> oid \<Rightarrow> id_param \<Rightarrow> json option \<Rightarrow> response \<times> store" where
  "updateServiceStatus s requester p nuevoEstado =
    (case estado_valido nuevoEstado of
       None \<Rightarrow> (fail 400 (''Estado inv'' @ a_acute
                  @ ''lido. Debe ser: pendiente, en progreso o completado''), s)
     | Some nuevo \<Rightarrow>
        (case findById (services s) p of
           Inl err \<Rightarrow> (internal_error, s)
         | Inr None \<Rightarrow> (fail 404 ''Servicio no encontrado'', s)
         | Inr (Some (i, d)) \<Rightarrow>
            if creadoPor d \<noteq> requester
            then (fail 403 ''No tienes permisos para cambiar el estado de este servicio'', s)
            else
              (case (if nuevo = ''en progreso'' \<and> estado d = ''pendiente''
                       then Some (marcarEnProgreso s i d)
                     else if nuevo = ''completado'' \<and> estado d = ''en progreso''
                       then Some (marcarCompletado s i d)
                     else if nuevo = ''pendiente'' \<and> estado d = ''en progreso''
                       then Some (service_save s i (d\<lparr>estado := ''pendiente''\<rparr>))
                     else None) of
                 None \<Rightarrow> (fail 400 (''No se puede cambiar de estado '' @ dquote @ estado d
                            @ dquote @ '' a '' @ dquote @ nuevo @ dquote), s)
               | Some (Inl err) \<Rightarrow> (internal_error, s)
               | Some (Inr (d', s')) \<Rightarrow>
                   (\<lparr>status = 200, body = JObj [(''success'', JBool True),
                      (''message'', JStr (''Estado del servicio cambiado a '' @ dquote @ nuevo
                         @ dquote)),
                      (''data'', JObj [(''service'', service_toJSON s' owner_fields i d')])]\<rparr>,
                    s'))))"

section \<open>Locations in an update\<close>

text \<open>
  The block that validates \<open>updates.ubicacion\<close> is the same text in \<open>updateUser\<close>
  (lines 228 to 256) and in \<open>updateService\<close> (lines 265 to 293), so it is modelled
  once. A location object of a request carries a \<open>coordinates\<close> array or none
  (absent or \<open>null\<close>); an element of the array is a number or \<open>null\<close>. A number that
  JavaScript computes is a real or \<open>NaN\<close>, which is \<open>None\<close>.
\<close>

datatype coord = CNull | CNum real

datatype ubicacion_body = Ubicacion "coord list option"

type_synonym jsnum = "real option"

definition toNumber :: "coord \<Rightarrow> jsnum" where
  "toNumber c = (case c of CNull \<Rightarrow> Some 0 | CNum x \<Rightarrow> Some x)"

definition isNaN :: "coord \<Rightarrow> bool" where
  "isNaN c = (toNumber c = None)"

text \<open>\<open>c < k\<close> and \<open>c > k\<close>: the operand is converted to a number, and a comparison
  with \<open>NaN\<close> is false.\<close>

definition js_lt :: "coord \<Rightarrow> real \<Rightarrow> bool" where
  "js_lt c k = (case toNumber c of None \<Rightarrow> False | Some x \<Rightarrow> x < k)"

definition js_gt :: "coord \<Rightarrow> real \<Rightarrow> bool" where
  "js_gt c k = (case toNumber c of None \<Rightarrow> False | Some x \<Rightarrow> k < x)"

text \<open>\<open>parseFloat\<close> converts its argument to a string first: \<open>null\<close> becomes the
  text \<open>null\<close>, which starts no number.\<close>

definition parseFloat_coord :: "coord \<Rightarrow> jsnum" where
  "parseFloat_coord c = (case c of CNull \<Rightarrow> None | CNum x \<Rightarrow> Some x)"

text \<open>\<open>xs[n]\<close>: \<open>undefined\<close>, here \<open>None\<close>, beyond the end.\<close>

definition js_index :: "'a list \<Rightarrow> nat \<Rightarrow> 'a option" where
  "js_index xs n = (if n < length xs then Some (xs ! n) else None)"

text \<open>What the block leaves in \<open>updates.ubicacion\<close>: the key absent, the key present
  with the value \<open>undefined\<close>, or a point.\<close>

datatype loc_update = Untouched | Undefined | Point jsnum jsnum

definition procesar_ubicacion :: "ubicacion_body option \<Rightarrow> response + loc_update" where
  "procesar_ubicacion u = (case u of
       None \<Rightarrow> Inr Untouched
     | Some (Ubicacion None) \<Rightarrow> Inr Undefined
     | Some (Ubicacion (Some cs)) \<Rightarrow>
         if length cs = 0 \<or> (js_index cs 0 = Some CNull \<and> js_index cs 1 = Some CNull)
         then Inr Undefined
         else if length cs = 2 then
           (let longitud = cs ! 0; latitud = cs ! 1 in
            if isNaN longitud \<or> isNaN latitud \<or> js_lt longitud (- 180) \<or> js_gt longitud 180
               \<or> js_lt latitud (- 90) \<or> js_gt latitud 90
            then Inl (fail 400 (''Las coordenadas deben ser [longitud, latitud] v'' @ a_acute
                        @ ''lidas''))
            else Inr (Point (parseFloat_coord longitud) (parseFloat_coord latitud)))
         else Inl (fail 400 ''Las coordenadas deben ser [longitud, latitud]''))"

text \<open>
  The store's side of a location in an update. A point with a \<open>NaN\<close> fails the cast
  of the \<open>[Number]\<close> path. A key whose value is \<open>undefined\<close> is either dropped from
  the update, which leaves the stored location, or written as no location: which one
  depends on the version of the object mapper, so it is the parameter
  \<open>strip_undefined\<close>.
\<close>

definition cast_loc :: "loc_update \<Rightarrow> exn + unit" where
  "cast_loc l = (case l of
       Point None _ \<Rightarrow> Inl CastError
     | Point _ None \<Rightarrow> Inl CastError
     | _ \<Rightarrow> Inr ())"

definition set_loc :: "bool \<Rightarrow> loc_update \<Rightarrow> real list option \<Rightarrow> real list option" where
  "set_loc strip_undefined l old = (case l of
       Untouched \<Rightarrow> old
     | Undefined \<Rightarrow> if strip_undefined then old else None
     | Point (Some lon) (Some lat) \<Rightarrow> Some [lon, lat]
     | Point _ _ \<Rightarrow> old)"

definition v_loc :: "loc_update \<Rightarrow> string list" where
  "v_loc l = (case l of Point (Some lon) (Some lat) \<Rightarrow> v_coords (Some [lon, lat]) | _ \<Rightarrow> [])"

section \<open>Editing a listing\<close>

text \<open>
  The body of \<open>PUT /api/services/:id\<close>: each key of the schema is absent or carries
  a value of the type the schema declares. The whole body goes to
  \<open>findByIdAndUpdate\<close>, which sets the keys that are present, so the body can also
  carry update operators of the store. \<open>$inc\<close> on the two numeric paths is modelled:
  \<open>u_inc_precio\<close> and \<open>u_inc_duracionEstimada\<close> are the keys \<open>precio\<close> and
  \<open>duracionEstimada\<close> of the object under \<open>$inc\<close>. Update validators do not run on
  \<open>$inc\<close>, and the store refuses an update that sets and increments the same path.
  The keys of an object under \<open>$set\<close> are merged with the keys of the body and, the
  location apart, treated like them; they are not modelled.
\<close>

record service_updates =
  u_titulo :: "string option"
  u_descripcion :: "string option"
  u_categoria :: "string option"
  u_estado :: "string option"
  u_creadoPor :: "oid option"
  u_ubicacionS :: "ubicacion_body option"
  u_precio :: "real option"
  u_moneda :: "string option"
  u_duracionEstimada :: "real option"
  u_unidadDuracion :: "string option"
  u_inc_precio :: "real option"
  u_inc_duracionEstimada :: "real option"

definition on_key :: "'a option \<Rightarrow> ('a \<Rightarrow> string list) \<Rightarrow> string list" where
  "on_key v f = (case v of None \<Rightarrow> [] | Some x \<Rightarrow> f x)"

definition override :: "'a option \<Rightarrow> 'a \<Rightarrow> 'a" where
  "override v old = (case v of None \<Rightarrow> old | Some x \<Rightarrow> x)"

text \<open>Update validators run on the paths of the update only; the string paths with
  \<open>trim: true\<close> are trimmed by their setter first.\<close>

definition service_update_errors :: "service_updates \<Rightarrow> loc_update \<Rightarrow> string list" where
  "service_update_errors up l =
     on_key (map_option trim (u_titulo up)) v_titulo
     @ on_key (map_option trim (u_descripcion up)) v_descripcion
     @ on_key (map_option trim (u_categoria up)) v_categoria
     @ on_key (u_estado up) v_estado @ v_loc l
     @ on_key (u_precio up) v_precio @ on_key (u_moneda up) v_moneda
     @ on_key (u_duracionEstimada up) v_duracionEstimada
     @ on_key (u_unidadDuracion up) v_unidadDuracion"

text \<open>Whether the update sets and increments the same path.\<close>

definition service_update_conflict :: "service_updates \<Rightarrow> bool" where
  "service_update_conflict up =
     ((u_precio up \<noteq> None \<and> u_inc_precio up \<noteq> None)
      \<or> (u_duracionEstimada up \<noteq> None \<and> u_inc_duracionEstimada up \<noteq> None))"

definition increment :: "real option \<Rightarrow> real \<Rightarrow> real" where
  "increment v x = (case v of None \<Rightarrow> x | Some k \<Rightarrow> x + k)"

definition service_apply :: "bool \<Rightarrow> service_updates \<Rightarrow> loc_update \<Rightarrow> service \<Rightarrow> service" where
  "service_apply strip_undefined up l d =
     \<lparr>titulo = override (map_option trim (u_titulo up)) (titulo d),
      descripcion = override (map_option trim (u_descripcion up)) (descripcion d),
      categoria = override (map_option trim (u_categoria up)) (categoria d),
      estado = override (u_estado up) (estado d),
      creadoPor = override (u_creadoPor up) (creadoPor d),
      ubicacionS = set_loc strip_undefined l (ubicacionS d),
      precio = increment (u_inc_precio up) (override (u_precio up) (precio d)),
      moneda = override (u_moneda up) (moneda d),
      duracionEstimada = increment (u_inc_duracionEstimada up)
         (override (u_duracionEstimada up) (duracionEstimada d)),
      unidadDuracion = override (u_unidadDuracion up) (unidadDuracion d)\<rparr>"

text \<open>\<open>Service.findByIdAndUpdate(id, updates, { new: true, runValidators: true })\<close>\<close>

definition service_findByIdAndUpdate ::
  "bool \<Rightarrow> store \<Rightarrow> oid \<Rightarrow> service_updates \<Rightarrow> loc_update \<Rightarrow> exn + (service option \<times> store)" where
  "service_findByIdAndUpdate strip_undefined s i up l =
     (case cast_loc l of
        Inl err \<Rightarrow> Inl err
      | Inr _ \<Rightarrow>
         if service_update_errors up l \<noteq> [] then Inl (ValidationError (service_update_errors up l))
         else if service_update_conflict up then Inl (Error ''Updating the path would create a conflict'')
         else (case lookup (services s) i of
                 None \<Rightarrow> Inr (None, s)
               | Some d \<Rightarrow>
                  (let d' = service_apply strip_undefined up l d
                   in Inr (Some d', s\<lparr>services := replace i d' (services s)\<rparr>))))"

definition updateService ::
  "bool \<Rightarrow> store \<Rightarrow> oid \<Rightarrow> id_param \<Rightarrow> service_updates \<Rightarrow> response \<times> store" where
  "updateService strip_undefined s requester p updates =
    (case findById (services s) p of
       Inl err \<Rightarrow> (internal_error, s)
     | Inr None \<Rightarrow> (fail 404 ''Servicio no encontrado'', s)
     | Inr (Some (i, d)) \<Rightarrow>
        if creadoPor d \<noteq> requester
        then (fail 403 ''No tienes permisos para editar este servicio'', s)
        else if \<not> puedeSerEditado d
        then (fail 400 ''Solo se pueden editar servicios en estado pendiente'', s)
        else
          (case procesar_ubicacion (u_ubicacionS updates) of
             Inl r \<Rightarrow> (r, s)
           | Inr l \<Rightarrow>
              (case service_findByIdAndUpdate strip_undefined s i updates l of
                 Inl (ValidationError es) \<Rightarrow>
                   (fail_errors (''Datos de servicio inv'' @ a_acute @ ''lidos'') es, s)
               | Inl _ \<Rightarrow> (internal_error, s)
               | Inr (d', s') \<Rightarrow>
                   (\<lparr>status = 200, body = JObj [(''success'', JBool True),
                      (''message'', JStr ''Servicio actualizado exitosamente''),
                      (''data'', JObj [(''service'',
                         (case d' of None \<Rightarrow> JNull
                          | Some x \<Rightarrow> service_toJSON s' owner_fields i x))])]\<rparr>,
                    s'))))"

section \<open>The user schema\<close>

text \<open>
  The two \<open>match\<close> patterns of \<open>models/User.js\<close> are anchored at both ends, so
  \<open>test\<close> decides membership in a regular language; it is computed by derivatives.
  \<open>\w\<close> is a letter, a digit or the underscore.
\<close>

datatype cclass = Word | DotOrDash | Dot | At | Phone

definition is_digit :: "char \<Rightarrow> bool" where
  "is_digit c = (let n = (of_char c :: nat) in 48 \<le> n \<and> n \<le> 57)"

definition is_word :: "char \<Rightarrow> bool" where
  "is_word c = (let n = (of_char c :: nat) in
     (48 \<le> n \<and> n \<le> 57) \<or> (65 \<le> n \<and> n \<le> 90) \<or> (97 \<le> n \<and> n \<le> 122) \<or> n = 95)"

fun in_class :: "cclass \<Rightarrow> char \<Rightarrow> bool" where
  "in_class Word c = is_word c"
| "in_class DotOrDash c = (c = CHR ''.'' \<or> c = CHR ''-'')"
| "in_class Dot c = (c = CHR ''.'')"
| "in_class At c = (c = CHR ''@'')"
| "in_class Phone c = (is_digit c \<or> c = CHR ''+'' \<or> c = CHR ''-'' \<or> is_space c
     \<or> c = CHR ''('' \<or> c = CHR '')'')"

datatype regex = Nothing | Eps | Cls cclass | Seq regex regex | Alt regex regex | Star regex

abbreviation (input) Opt :: "regex \<Rightarrow> regex" where "Opt r \<equiv> Alt Eps r"
abbreviation (input) Plus :: "regex \<Rightarrow> regex" where "Plus r \<equiv> Seq r (Star r)"

fun nullable :: "regex \<Rightarrow> bool" where
  "nullable Nothing = False"
| "nullable Eps = True"
| "nullable (Cls k) = False"
| "nullable (Seq r q) = (nullable r \<and> nullable q)"
| "nullable (Alt r q) = (nullable r \<or> nullable q)"
| "nullable (Star r) = True"

fun deriv :: "char \<Rightarrow> regex \<Rightarrow> regex" where
  "deriv c Nothing = Nothing"
| "deriv c Eps = Nothing"
| "deriv c (Cls k) = (if in_class k c then Eps else Nothing)"
| "deriv c (Seq r q) = (if nullable r then Alt (Seq (deriv c r) q) (deriv c q)
                        else Seq (deriv c r) q)"
| "deriv c (Alt r q) = Alt (deriv c r) (deriv c q)"
| "deriv c (Star r) = Seq (deriv c r) (Star r)"

fun test :: "regex \<Rightarrow> string \<Rightarrow> bool" where
  "test r [] = nullable r"
| "test r (c # cs) = test (deriv c r) cs"

text \<open>\<open>/^\w+([.-]?\w+)*@\w+([.-]?\w+)*(\.\w{2,3})+$/\<close>\<close>

definition email_regex :: regex where
  "email_regex =
     Seq (Plus (Cls Word)) (Seq (Star (Seq (Opt (Cls DotOrDash)) (Plus (Cls Word))))
    (Seq (Cls At)
    (Seq (Plus (Cls Word)) (Seq (Star (Seq (Opt (Cls DotOrDash)) (Plus (Cls Word))))
    (Plus (Seq (Cls Dot) (Seq (Cls Word) (Seq (Cls Word) (Opt (Cls Word))))))))))"

text \<open>\<open>/^[0-9+\-\s()]+$/\<close>\<close>

definition telefono_regex :: regex where
  "telefono_regex = Plus (Cls Phone)"

definition v_nombre :: "string \<Rightarrow> string list" where
  "v_nombre n = (if n = [] then [''El nombre es obligatorio'']
     else if 50 < length n then [''El nombre no puede exceder 50 caracteres'']
     else [])"

definition v_email :: "string \<Rightarrow> string list" where
  "v_email e = (if e = [] then [''El email es obligatorio'']
     else if \<not> test email_regex e then [''Por favor ingresa un email v'' @ a_acute @ ''lido'']
     else [])"

definition v_password :: "string \<Rightarrow> string list" where
  "v_password p = (if p = [] then [''La contrase'' @ n_tilde @ ''a es obligatoria'']
     else if length p < 6
       then [''La contrase'' @ n_tilde @ ''a debe tener al menos 6 caracteres'']
     else [])"

text \<open>A \<open>match\<close> validator accepts a value that is absent or the empty string.\<close>

definition v_telefono :: "string \<Rightarrow> string list" where
  "v_telefono p = (if p \<noteq> [] \<and> \<not> test telefono_regex p
     then [''Por favor ingresa un tel'' @ e_acute @ ''fono v'' @ a_acute @ ''lido'']
     else [])"

definition v_rol :: "string \<Rightarrow> string list" where
  "v_rol r = (if r = [] then [''El rol es obligatorio'']
     else if r \<notin> set [''oferente'', ''solicitante'']
       then [''El rol debe ser '' @ dquote @ ''oferente'' @ dquote @ '' o '' @ dquote
             @ ''solicitante'' @ dquote]
     else [])"

text \<open>Validation of a whole user, as \<open>save\<close> runs it before the \<open>pre('save')\<close> hook.\<close>

definition user_errors :: "user \<Rightarrow> string list" where
  "user_errors u = v_nombre (nombre u) @ v_email (email u) @ v_password (password u)
     @ on_key (telefono u) v_telefono @ v_rol (rol u) @ v_coords (ubicacion u)"

text \<open>The identifier that \<open>new User(...)\<close> or \<open>new Service(...)\<close> draws: one that no
  stored document has.\<close>

definition new_oid :: "(oid \<times> 'a) list \<Rightarrow> oid" where
  "new_oid docs = Suc (fold max (map fst docs) 0)"

text \<open>The unique index on \<open>email\<close>: another document already holds the value.\<close>

definition email_taken :: "(oid \<times> user) list \<Rightarrow> oid \<Rightarrow> string \<Rightarrow> bool" where
  "email_taken docs i e = list_ex (\<lambda>(j, u). j \<noteq> i \<and> email u = e) docs"

text \<open>
  \<open>newUser.save()\<close> on a new document: validation, then the hook that replaces the
  password by its hash, then the insertion, which the unique index refuses with the
  code 11000. The hash function of \<open>bcryptjs\<close>, with its salt, is the parameter
  \<open>hash\<close>.
\<close>

definition user_insert :: "(string \<Rightarrow> string) \<Rightarrow> store \<Rightarrow> user \<Rightarrow> exn + (oid \<times> user \<times> store)" where
  "user_insert hash s u =
     (if user_errors u \<noteq> [] then Inl (ValidationError (user_errors u))
      else (let i = new_oid (users s); u' = u\<lparr>password := hash (password u)\<rparr>
            in if email_taken (users s) i (email u') then Inl DuplicateKey
               else Inr (i, u', s\<lparr>users := users s @ [(i, u')]\<rparr>)))"

text \<open>
  A \<open>coordinates\<close> array on its way into a new document. The cast keeps a \<open>null\<close>
  and the validator lets it pass, since \<open>null >= -180\<close> holds; the geospatial index
  of the store then refuses the document.
\<close>

definition cast_coords :: "coord list \<Rightarrow> exn + real list" where
  "cast_coords cs = (if CNull \<in> set cs then Inl (Error ''Can't extract geo keys'')
     else Inr (map (\<lambda>c. case c of CNum x \<Rightarrow> x | CNull \<Rightarrow> 0) cs))"

section \<open>Registering a user\<close>

text \<open>\<open>createUser\<close> of \<open>controllers/userController.js\<close>, on the body of the request.\<close>

record user_body =
  b_nombre :: "string option"
  b_email :: "string option"
  b_password :: "string option"
  b_telefono :: "string option"
  b_rol :: "string option"
  b_skills :: "string list option"
  b_ubicacion :: "ubicacion_body option"

definition bad_location :: "ubicacion_body option \<Rightarrow> bool" where
  "bad_location u = (case u of None \<Rightarrow> False
     | Some (Ubicacion None) \<Rightarrow> True
     | Some (Ubicacion (Some cs)) \<Rightarrow> length cs \<noteq> 2)"

definition body_coords :: "ubicacion_body option \<Rightarrow> coord list option" where
  "body_coords u = (case u of Some (Ubicacion (Some cs)) \<Rightarrow> Some cs | _ \<Rightarrow> None)"

text \<open>
  \<open>new User(userData)\<close>: the fields of \<open>userData\<close> after the setters of the schema
  (\<open>trim\<close> on the strings, \<open>lowercase\<close> on the email, which the handler has lowered
  already). It is built once the four required fields are known to be non-empty
  strings.
\<close>

definition new_User :: "user_body \<Rightarrow> real list option \<Rightarrow> user" where
  "new_User b loc =
     \<lparr>nombre = trim (the (b_nombre b)),
      email = trim (toLowerCase (toLowerCase (the (b_email b)))),
      password = the (b_password b),
      telefono = map_option trim (b_telefono b),
      rol = the (b_rol b),
      skills = map trim (case b_skills b of None \<Rightarrow> [] | Some ks \<Rightarrow> ks),
      ubicacion = loc\<rparr>"

definition cast_location :: "ubicacion_body option \<Rightarrow> exn + real list option" where
  "cast_location u = (case body_coords u of
       None \<Rightarrow> Inr None
     | Some cs \<Rightarrow> map_sum id Some (cast_coords cs))"

definition createUser :: "(string \<Rightarrow> string) \<Rightarrow> store \<Rightarrow> user_body \<Rightarrow> response \<times> store" where
  "createUser hash s b =
    (if \<not> truthy (b_nombre b) \<or> \<not> truthy (b_email b) \<or> \<not> truthy (b_password b)
        \<or> \<not> truthy (b_rol b)
     then (fail 400 (''Nombre, email, contrase'' @ n_tilde @ ''a y rol son obligatorios''), s)
     else if bad_location (b_ubicacion b)
     then (fail 400 (''Las coordenadas de ubicaci'' @ o_acute
             @ ''n deben ser [longitud, latitud]''), s)
     else
       (case cast_location (b_ubicacion b) of
          Inl err \<Rightarrow> (internal_error, s)
        | Inr loc \<Rightarrow>
           (case user_insert hash s (new_User b loc) of
              Inl (ValidationError es) \<Rightarrow>
                (fail_errors (''Datos de usuario inv'' @ a_acute @ ''lidos'') es, s)
            | Inl DuplicateKey \<Rightarrow> (fail 400 (''El email ya est'' @ a_acute @ '' registrado''), s)
            | Inl _ \<Rightarrow> (internal_error, s)
            | Inr (i, u, s') \<Rightarrow>
                (\<lparr>status = 201, body = JObj [(''success'', JBool True),
                    (''message'', JStr ''Usuario creado exitosamente''),
                    (''data'', JObj [(''user'', user_toJSON i u)])]\<rparr>, s'))))"

section \<open>The transition table of the specification\<close>

text \<open>
  The table of section 4.3 of the specification, written from its rows: the three
  allowed transitions. \<open>conflict\<close> is the response to a transition outside the table;
  the handler sends it with status 400.
\<close>

definition spec_allowed :: "string \<Rightarrow> string \<Rightarrow> bool" where
  "spec_allowed a b = ((a, b) \<in> {(''pendiente'', ''en progreso''),
      (''en progreso'', ''completado''), (''en progreso'', ''pendiente'')})"

definition conflict :: "string \<Rightarrow> string \<Rightarrow> response" where
  "conflict a b = fail 400 (''No se puede cambiar de estado '' @ dquote @ a @ dquote @ '' a ''
     @ dquote @ b @ dquote)"

section \<open>The answer to a duplicate registration\<close>

text \<open>The response of \<open>createUser\<close> to the error code 11000 of the store.\<close>

definition registered :: response where
  "registered = fail 400 (''El email ya est'' @ a_acute @ '' registrado'')"

section \<open>Updating a user\<close>

text \<open>
  \<open>updateUser\<close> of \<open>controllers/userController.js\<close>. The body carries each key of
  the schema or not; the handler cleans these keys in place and hands the whole body
  to \<open>findByIdAndUpdate\<close>. The body can therefore carry an update operator as
  well: \<open>uu_set\<close> is the object under the key \<open>$set\<close>, with the scalar paths and
  the skills (a location under \<open>$set\<close> is not modelled), which the handler does not
  look at. \<open>findByIdAndUpdate\<close> adds the
  remaining keys of the body to that object, a key of the body replacing the same key
  under \<open>$set\<close>, and sets the result. \<open>user_set\<close> is that result: the phone, like
  the location, can end as a key whose value is \<open>undefined\<close>.
\<close>

record set_operator =
  o_nombre :: "string option"
  o_email :: "string option"
  o_password :: "string option"
  o_telefono :: "string option"
  o_rol :: "string option"
  o_skills :: "string list option"

record user_updates =
  uu_nombre :: "string option"
  uu_email :: "string option"
  uu_password :: "string option"
  uu_telefono :: "string option"
  uu_rol :: "string option"
  uu_skills :: "string list option"
  uu_ubicacion :: "ubicacion_body option"
  uu_set :: "set_operator option"

datatype tel_update = TelAbsent | TelUndefined | TelSet string

record user_set =
  s_nombre :: "string option"
  s_email :: "string option"
  s_password :: "string option"
  s_telefono :: tel_update
  s_rol :: "string option"
  s_skills :: "string list option"
  s_ubicacion :: loc_update

text \<open>\<open>if (updates.password) { delete updates.password; }\<close>\<close>

definition strip_password :: "string option \<Rightarrow> string option" where
  "strip_password p = (if truthy p then None else p)"

text \<open>\<open>updates.nombre ? updates.nombre.trim() : ''\<close>, when the key is present.\<close>

definition clean_nombre :: "string option \<Rightarrow> string option" where
  "clean_nombre n = map_option (\<lambda>x. if x \<noteq> [] then trim x else []) n"

definition clean_telefono :: "string option \<Rightarrow> tel_update" where
  "clean_telefono p = (case p of
       None \<Rightarrow> TelAbsent
     | Some x \<Rightarrow> if x \<noteq> [] then (if trim x = [] then TelUndefined else TelSet (trim x))
                else TelSet x)"

definition clean_skills :: "string list option \<Rightarrow> string list option" where
  "clean_skills ks = map_option (\<lambda>xs. filter (\<lambda>x. x \<noteq> [])
     (map (\<lambda>x. if x \<noteq> [] then trim x else []) xs)) ks"

definition v_tel :: "tel_update \<Rightarrow> string list" where
  "v_tel p = (case p of TelSet x \<Rightarrow> v_telefono (trim x) | _ \<Rightarrow> [])"

definition set_tel :: "bool \<Rightarrow> tel_update \<Rightarrow> string option \<Rightarrow> string option" where
  "set_tel strip_undefined p old = (case p of
       TelAbsent \<Rightarrow> old
     | TelUndefined \<Rightarrow> if strip_undefined then old else None
     | TelSet x \<Rightarrow> Some (trim x))"

definition user_update_errors :: "user_set \<Rightarrow> string list" where
  "user_update_errors up =
     on_key (map_option trim (s_nombre up)) v_nombre
     @ on_key (map_option (\<lambda>e. trim (toLowerCase e)) (s_email up)) v_email
     @ on_key (s_password up) v_password
     @ v_tel (s_telefono up)
     @ on_key (s_rol up) v_rol
     @ v_loc (s_ubicacion up)"

definition user_apply :: "bool \<Rightarrow> user_set \<Rightarrow> user \<Rightarrow> user" where
  "user_apply strip_undefined up u =
     \<lparr>nombre = override (map_option trim (s_nombre up)) (nombre u),
      email = override (map_option (\<lambda>e. trim (toLowerCase e)) (s_email up)) (email u),
      password = override (s_password up) (password u),
      telefono = set_tel strip_undefined (s_telefono up) (telefono u),
      rol = override (s_rol up) (rol u),
      skills = override (map_option (map trim) (s_skills up)) (skills u),
      ubicacion = set_loc strip_undefined (s_ubicacion up) (ubicacion u)\<rparr>"

text \<open>
  \<open>User.findByIdAndUpdate(id, updates, { new: true, runValidators: true })\<close>: the
  cast, the validators of the paths that are set, then the write, which the unique
  index on the email can refuse. No \<open>save\<close> hook runs, so nothing is hashed here.
\<close>

definition user_findByIdAndUpdate ::
  "bool \<Rightarrow> store \<Rightarrow> oid \<Rightarrow> user_set \<Rightarrow> exn + (user option \<times> store)" where
  "user_findByIdAndUpdate strip_undefined s i up =
     (case cast_loc (s_ubicacion up) of
        Inl err \<Rightarrow> Inl err
      | Inr _ \<Rightarrow>
         if user_update_errors up \<noteq> [] then Inl (ValidationError (user_update_errors up))
         else (case lookup (users s) i of
                 None \<Rightarrow> Inr (None, s)
               | Some u \<Rightarrow>
                  (let u' = user_apply strip_undefined up u
                   in if email_taken (users s) i (email u') then Inl DuplicateKey
                      else Inr (Some u', s\<lparr>users := replace i u' (users s)\<rparr>))))"

text \<open>A key of the body, or else the same key under \<open>$set\<close>.\<close>

definition or_set :: "'a option \<Rightarrow> set_operator option \<Rightarrow> (set_operator \<Rightarrow> 'a option) \<Rightarrow> 'a option" where
  "or_set v op sel = (case v of
       Some x \<Rightarrow> Some x
     | None \<Rightarrow> (case op of None \<Rightarrow> None | Some o' \<Rightarrow> sel o'))"

definition tel_or_set :: "tel_update \<Rightarrow> set_operator option \<Rightarrow> tel_update" where
  "tel_or_set t op = (case t of
       TelAbsent \<Rightarrow> (case op of
            None \<Rightarrow> TelAbsent
          | Some o' \<Rightarrow> (case o_telefono o' of None \<Rightarrow> TelAbsent | Some x \<Rightarrow> TelSet x))
     | _ \<Rightarrow> t)"

text \<open>What \<open>findByIdAndUpdate\<close> sets: the body as the handler leaves it, with the
  outcome of the location block, over the object under \<open>$set\<close>.\<close>

definition cleaned :: "user_updates \<Rightarrow> loc_update \<Rightarrow> user_set" where
  "cleaned updates l =
     \<lparr>s_nombre = or_set (clean_nombre (uu_nombre updates)) (uu_set updates) o_nombre,
      s_email = or_set (uu_email updates) (uu_set updates) o_email,
      s_password = or_set (strip_password (uu_password updates)) (uu_set updates) o_password,
      s_telefono = tel_or_set (clean_telefono (uu_telefono updates)) (uu_set updates),
      s_rol = or_set (uu_rol updates) (uu_set updates) o_rol,
      s_skills = or_set (clean_skills (uu_skills updates)) (uu_set updates) o_skills,
      s_ubicacion = l\<rparr>"

definition updateUser :: "bool \<Rightarrow> store \<Rightarrow> id_param \<Rightarrow> user_updates \<Rightarrow> response \<times> store" where
  "updateUser strip_undefined s p updates =
    (if clean_nombre (uu_nombre updates) = Some []
     then (\<lparr>status = 400, body = JObj [(''success'', JBool False),
             (''message'', JStr (''El nombre no puede estar vac'' @ i_acute @ ''o'')),
             (''field'', JStr ''nombre'')]\<rparr>, s)
     else
      (case findById (users s) p of
         Inl err \<Rightarrow> (internal_error, s)
       | Inr None \<Rightarrow> (fail 404 ''Usuario no encontrado'', s)
       | Inr (Some (i, u)) \<Rightarrow>
          (case procesar_ubicacion (uu_ubicacion updates) of
             Inl r \<Rightarrow> (r, s)
           | Inr l \<Rightarrow>
              (case user_findByIdAndUpdate strip_undefined s i (cleaned updates l) of
                 Inl (ValidationError es) \<Rightarrow>
                   (fail_errors (''Datos de usuario inv'' @ a_acute @ ''lidos'') es, s)
               | Inl DuplicateKey \<Rightarrow>
                   (fail 400 (''El email ya est'' @ a_acute @ '' registrado''), s)
               | Inl _ \<Rightarrow> (internal_error, s)
               | Inr (None, s') \<Rightarrow> (internal_error, s')
               | Inr (Some u', s') \<Rightarrow>
                   (\<lparr>status = 200, body = JObj [(''success'', JBool True),
                      (''message'', JStr ''Usuario actualizado exitosamente''),
                      (''data'', JObj [(''user'', user_toJSON i u')])]\<rparr>, s')))))"

section \<open>Logging in\<close>

text \<open>
  \<open>login\<close> and \<open>getMe\<close> of \<open>controllers/authController.js\<close>. The email and the
  password of the body are any JSON values or \<open>undefined\<close>. \<open>bcrypt.compare\<close> on two
  strings and \<open>jwt.sign\<close> with the secret of the process are the parameters
  \<open>compare\<close> and \<open>sign\<close>; signing throws when the secret is missing.
\<close>

text \<open>\<open>User.findOne({ email: e })\<close>: the setters of the path, \<open>lowercase\<close> and
  \<open>trim\<close>, are applied to the value of the filter before the store compares.\<close>

definition findOne_email :: "(oid \<times> user) list \<Rightarrow> string \<Rightarrow> (oid \<times> user) option" where
  "findOne_email docs e = find (\<lambda>(i, u). email u = trim (toLowerCase e)) docs"

text \<open>\<open>user.comparePassword(candidate)\<close>: \<open>bcrypt.compare\<close> rejects a candidate that
  is not a string with the error \<open>Illegal arguments\<close>.\<close>

definition comparePassword :: "(string \<Rightarrow> string \<Rightarrow> bool) \<Rightarrow> json \<Rightarrow> user \<Rightarrow> exn + bool" where
  "comparePassword compare candidate u = (case candidate of
       JStr c \<Rightarrow> Inr (compare c (password u))
     | _ \<Rightarrow> Inl (Error ''Illegal arguments''))"

definition credenciales :: response where
  "credenciales = fail 401 (''Credenciales inv'' @ a_acute @ ''lidas'')"

definition login ::
  "(string \<Rightarrow> string \<Rightarrow> bool) \<Rightarrow> (oid \<Rightarrow> exn + string) \<Rightarrow> store
     \<Rightarrow> json option \<Rightarrow> json option \<Rightarrow> response" where
  "login compare sign s em pw =
    (if \<not> truthy_json em \<or> \<not> truthy_json pw
     then fail 400 (''Email y contrase'' @ n_tilde @ ''a son obligatorios'')
     else
      (case em of
         Some (JStr e) \<Rightarrow>
          (case findOne_email (users s) (toLowerCase e) of
             None \<Rightarrow> credenciales
           | Some (i, u) \<Rightarrow>
              (case comparePassword compare (the pw) u of
                 Inl err \<Rightarrow> internal_error
               | Inr isPasswordValid \<Rightarrow>
                  if \<not> isPasswordValid then credenciales
                  else
                    (case sign i of
                       Inl err \<Rightarrow> internal_error
                     | Inr token \<Rightarrow>
                         \<lparr>status = 200, body = JObj [(''success'', JBool True),
                            (''message'', JStr (''Inicio de sesi'' @ o_acute @ ''n exitoso'')),
                            (''data'', JObj [(''user'', user_toJSON i u),
                                             (''token'', JStr token)])]\<rparr>)))
       | _ \<Rightarrow> internal_error))"


section \<open>Keys of a response\<close>


section \<open>Numbers of a query string\<close>

text \<open>
  A JavaScript number is a real, \<open>NaN\<close> or an infinity. Reals are exact: rounding,
  overflow to an infinity and the sign of zero are not modelled. \<open>parseFloat\<close>,
  \<open>parseInt\<close> and the conversion of a string by an arithmetic operator follow the
  grammar of the language for ASCII input.
\<close>

datatype number = NaN | PosInf | NegInf | Num real

definition digit_val :: "char \<Rightarrow> nat" where
  "digit_val c = (of_char c :: nat) - 48"

definition nat_of_digits :: "string \<Rightarrow> nat" where
  "nat_of_digits ds = foldl (\<lambda>n c. 10 * n + digit_val c) 0 ds"

text \<open>An optional sign: whether it is a minus, and the rest.\<close>

definition take_sign :: "string \<Rightarrow> bool \<times> string" where
  "take_sign s = (case s of
       [] \<Rightarrow> (False, [])
     | c # r \<Rightarrow> if c = CHR ''-'' then (True, r) else if c = CHR ''+'' then (False, r)
                else (False, s))"

text \<open>An exponent part, which counts only when a digit follows: its value and the rest.\<close>

definition take_exponent :: "string \<Rightarrow> int \<times> string" where
  "take_exponent s = (case s of
       [] \<Rightarrow> (0, [])
     | c # r \<Rightarrow>
        if c = CHR ''e'' \<or> c = CHR ''E'' then
          (let (neg, r') = take_sign r; ds = takeWhile is_digit r' in
           if ds = [] then (0, s)
           else ((if neg then - int (nat_of_digits ds) else int (nat_of_digits ds)),
                 dropWhile is_digit r'))
        else (0, s))"

definition scale10 :: "real \<Rightarrow> int \<Rightarrow> real" where
  "scale10 x e = (if 0 \<le> e then x * 10 ^ nat e else x / 10 ^ nat (- e))"

text \<open>The longest prefix that is a decimal literal of a string (\<open>StrDecimalLiteral\<close>):
  its value and the rest, or \<open>None\<close> when no prefix is one.\<close>

definition decimal_prefix :: "string \<Rightarrow> (number \<times> string) option" where
  "decimal_prefix s =
     (let (neg, t) = take_sign s in
      if take 8 t = ''Infinity'' then Some ((if neg then NegInf else PosInf), drop 8 t)
      else
        (let ip = takeWhile is_digit t; r1 = dropWhile is_digit t;
             (fp, r2) = (case r1 of
                  [] \<Rightarrow> ([], [])
                | c # r \<Rightarrow> if c = CHR ''.'' then (takeWhile is_digit r, dropWhile is_digit r)
                           else ([], r1))
         in if ip = [] \<and> fp = [] then None
            else
              (let m = real (nat_of_digits ip) + real (nat_of_digits fp) / 10 ^ length fp;
                   (e, r3) = take_exponent r2
               in Some (Num (scale10 (if neg then - m else m) e), r3))))"

definition parseFloat :: "string \<Rightarrow> number" where
  "parseFloat s = (case decimal_prefix (dropWhile is_space s) of
       None \<Rightarrow> NaN | Some (v, r) \<Rightarrow> v)"

definition hex_val :: "char \<Rightarrow> nat option" where
  "hex_val c = (let n = (of_char c :: nat) in
     if 48 \<le> n \<and> n \<le> 57 then Some (n - 48)
     else if 65 \<le> n \<and> n \<le> 70 then Some (n - 55)
     else if 97 \<le> n \<and> n \<le> 102 then Some (n - 87)
     else None)"

definition digit_in :: "nat \<Rightarrow> char \<Rightarrow> bool" where
  "digit_in radix c = (case hex_val c of None \<Rightarrow> False | Some v \<Rightarrow> v < radix)"

definition nat_of_radix :: "nat \<Rightarrow> string \<Rightarrow> nat" where
  "nat_of_radix radix ds = foldl (\<lambda>n c. radix * n + the (hex_val c)) 0 ds"

definition has_prefix :: "char \<Rightarrow> char \<Rightarrow> string \<Rightarrow> bool" where
  "has_prefix a b s = (case s of z # c # r \<Rightarrow> z = CHR ''0'' \<and> (c = a \<or> c = b) | _ \<Rightarrow> False)"

text \<open>\<open>parseInt(s)\<close> without a radix: leading white space, a sign, then hexadecimal
  digits after \<open>0x\<close> or decimal digits; \<open>NaN\<close> when there is no digit.\<close>

definition parseInt :: "string \<Rightarrow> number" where
  "parseInt s =
     (let (neg, t) = take_sign (dropWhile is_space s);
          radix = (if has_prefix (CHR ''x'') (CHR ''X'') t then 16 else 10);
          t' = (if radix = 16 then drop 2 t else t);
          ds = takeWhile (digit_in radix) t'
      in if ds = [] then NaN
         else Num (if neg then - real (nat_of_radix radix ds) else real (nat_of_radix radix ds)))"

text \<open>The number a string stands for in \<open>radio * 1000\<close> (\<open>StringToNumber\<close>): the
  whole trimmed string must be a literal, and the empty string is 0.\<close>

definition non_decimal :: "nat \<Rightarrow> string \<Rightarrow> number" where
  "non_decimal radix ds = (if ds \<noteq> [] \<and> list_all (digit_in radix) ds
     then Num (real (nat_of_radix radix ds)) else NaN)"

definition toNumber_string :: "string \<Rightarrow> number" where
  "toNumber_string s =
     (let t = trim s in
      if t = [] then Num 0
      else if has_prefix (CHR ''x'') (CHR ''X'') t then non_decimal 16 (drop 2 t)
      else if has_prefix (CHR ''o'') (CHR ''O'') t then non_decimal 8 (drop 2 t)
      else if has_prefix (CHR ''b'') (CHR ''B'') t then non_decimal 2 (drop 2 t)
      else (case decimal_prefix t of Some (v, []) \<Rightarrow> v | _ \<Rightarrow> NaN))"

definition num_isNaN :: "number \<Rightarrow> bool" where
  "num_isNaN x = (x = NaN)"

definition num_neg :: "number \<Rightarrow> number" where
  "num_neg x = (case x of NaN \<Rightarrow> NaN | PosInf \<Rightarrow> NegInf | NegInf \<Rightarrow> PosInf | Num a \<Rightarrow> Num (- a))"

definition num_add :: "number \<Rightarrow> number \<Rightarrow> number" where
  "num_add x y = (case (x, y) of
       (NaN, _) \<Rightarrow> NaN | (_, NaN) \<Rightarrow> NaN
     | (PosInf, NegInf) \<Rightarrow> NaN | (NegInf, PosInf) \<Rightarrow> NaN
     | (PosInf, _) \<Rightarrow> PosInf | (_, PosInf) \<Rightarrow> PosInf
     | (NegInf, _) \<Rightarrow> NegInf | (_, NegInf) \<Rightarrow> NegInf
     | (Num a, Num b) \<Rightarrow> Num (a + b))"

definition num_sub :: "number \<Rightarrow> number \<Rightarrow> number" where
  "num_sub x y = num_add x (num_neg y)"

definition inf_signed :: "bool \<Rightarrow> number" where
  "inf_signed positive = (if positive then PosInf else NegInf)"

definition num_mul :: "number \<Rightarrow> number \<Rightarrow> number" where
  "num_mul x y = (case (x, y) of
       (NaN, _) \<Rightarrow> NaN | (_, NaN) \<Rightarrow> NaN
     | (Num a, Num b) \<Rightarrow> Num (a * b)
     | (Num a, PosInf) \<Rightarrow> if a = 0 then NaN else inf_signed (0 < a)
     | (Num a, NegInf) \<Rightarrow> if a = 0 then NaN else inf_signed (a < 0)
     | (PosInf, Num b) \<Rightarrow> if b = 0 then NaN else inf_signed (0 < b)
     | (NegInf, Num b) \<Rightarrow> if b = 0 then NaN else inf_signed (b < 0)
     | (PosInf, PosInf) \<Rightarrow> PosInf | (NegInf, NegInf) \<Rightarrow> PosInf
     | (PosInf, NegInf) \<Rightarrow> NegInf | (NegInf, PosInf) \<Rightarrow> NegInf)"

definition num_div :: "number \<Rightarrow> number \<Rightarrow> number" where
  "num_div x y = (case (x, y) of
       (NaN, _) \<Rightarrow> NaN | (_, NaN) \<Rightarrow> NaN
     | (Num a, Num b) \<Rightarrow> if b = 0 then (if a = 0 then NaN else inf_signed (0 < a))
                            else Num (a / b)
     | (Num a, _) \<Rightarrow> Num 0
     | (PosInf, Num b) \<Rightarrow> inf_signed (0 \<le> b)
     | (NegInf, Num b) \<Rightarrow> inf_signed (b < 0)
     | (_, _) \<Rightarrow> NaN)"

definition num_ceil :: "number \<Rightarrow> number" where
  "num_ceil x = (case x of Num a \<Rightarrow> Num (of_int \<lceil>a\<rceil>) | _ \<Rightarrow> x)"

definition num_lt :: "number \<Rightarrow> number \<Rightarrow> bool" where
  "num_lt x y = (case (x, y) of
       (NaN, _) \<Rightarrow> False | (_, NaN) \<Rightarrow> False
     | (Num a, Num b) \<Rightarrow> a < b
     | (NegInf, NegInf) \<Rightarrow> False | (NegInf, _) \<Rightarrow> True
     | (_, PosInf) \<Rightarrow> (x \<noteq> PosInf)
     | (_, _) \<Rightarrow> False)"

text \<open>\<open>JSON.stringify\<close> writes \<open>NaN\<close> and the infinities as \<open>null\<close>.\<close>

definition json_number :: "number \<Rightarrow> json" where
  "json_number x = (case x of Num a \<Rightarrow> JNum a | _ \<Rightarrow> JNull)"

section \<open>Listing users and listings\<close>

text \<open>\<open>ubicacion.split(',')\<close>\<close>

fun split_comma :: "string \<Rightarrow> string list" where
  "split_comma [] = [[]]"
| "split_comma (c # cs) = (if c = CHR '','' then [] # split_comma cs
     else (case split_comma cs of p # ps \<Rightarrow> (c # p) # ps | [] \<Rightarrow> [[c]]))"

text \<open>
  A value of the parsed query: a string, or, when the parameter is repeated or
  written with brackets, an array or an object of such values. \<open>ubicacion\<close> is such
  a value; the other parameters are taken as strings.
\<close>

datatype qvalue = QStr string | QArr "qvalue list" | QObj "(string \<times> qvalue) list"

primrec qvalue_json :: "qvalue \<Rightarrow> json" where
  "qvalue_json (QStr x) = JStr x"
| "qvalue_json (QArr xs) = JArr (map qvalue_json xs)"
| "qvalue_json (QObj kvs) = JObj (map (map_prod id qvalue_json) kvs)"

text \<open>
  The \<open>$near\<close> filter: the coordinates of the point and \<open>$maxDistance\<close>.
  \<open>geo_query\<close> is the test of \<open>ubicacion\<close> and the \<open>try\<close> block of both list
  handlers; its result is what the block throws or the filter it leaves in
  \<open>geoQuery\<close>. The block is entered when \<open>ubicacion\<close> is truthy: a non-empty
  string, an array or an object. On a string, \<open>split\<close>, \<open>trim\<close>, \<open>parseFloat\<close> and
  the destructuring of the array are total, and a missing second part is
  \<open>undefined\<close>, of which \<open>isNaN\<close> holds. An array or an object has no \<open>split\<close>, so
  the call throws a \<open>TypeError\<close>. \<open>radio\<close> is the string of the query, or 10.
\<close>

record near =
  near_lon :: number
  near_lat :: number
  maxDistance :: number

definition radio_number :: "string option \<Rightarrow> number" where
  "radio_number radio = (case radio of None \<Rightarrow> Num 10 | Some r \<Rightarrow> toNumber_string r)"

definition parsed_ubicacion :: "string \<Rightarrow> number \<times> number" where
  "parsed_ubicacion u =
     (let parts = map (\<lambda>coord. parseFloat (trim coord)) (split_comma u)
      in (case js_index parts 0 of None \<Rightarrow> NaN | Some x \<Rightarrow> x,
          case js_index parts 1 of None \<Rightarrow> NaN | Some x \<Rightarrow> x))"

definition geo_query :: "qvalue option \<Rightarrow> string option \<Rightarrow> exn + near option" where
  "geo_query ubic radio = (case ubic of
       None \<Rightarrow> Inr None
     | Some (QStr u) \<Rightarrow>
        if u \<noteq> [] then
          (let (longitud, latitud) = parsed_ubicacion u in
           if \<not> num_isNaN longitud \<and> \<not> num_isNaN latitud
           then Inr (Some \<lparr>near_lon = longitud, near_lat = latitud,
                   maxDistance = num_mul (radio_number radio) (Num 1000)\<rparr>)
           else Inr None)
        else Inr None
     | Some _ \<Rightarrow> Inl (Error ''ubicacion.split is not a function''))"

text \<open>The response of the \<open>catch\<close> around that block.\<close>

definition formato_invalido :: response where
  "formato_invalido = fail 400 (''Formato de ubicaci'' @ o_acute @ ''n inv'' @ a_acute
     @ ''lido. Use: longitud,latitud'')"

text \<open>\<open>parseInt(page)\<close> and \<open>parseInt(limit)\<close>, with the defaults of the
  destructuring.\<close>

definition int_param :: "real \<Rightarrow> string option \<Rightarrow> number" where
  "int_param dflt v = (case v of None \<Rightarrow> Num dflt | Some s \<Rightarrow> parseInt s)"

definition pagination :: "string \<Rightarrow> number \<Rightarrow> number \<Rightarrow> nat \<Rightarrow> json" where
  "pagination total_key page limit n =
     (let skip = num_mul (num_sub page (Num 1)) limit in
      JObj [(''currentPage'', json_number page),
            (''totalPages'', json_number (num_ceil (num_div (Num (real n)) limit))),
            (total_key, JNum (real n)),
            (''hasNext'', JBool (num_lt (num_add skip limit) (Num (real n)))),
            (''hasPrev'', JBool (num_lt (Num 1) page))])"

text \<open>
  The query engine of the store is outside the repository. A list handler hands it
  the filter, the sort order, the limit and the number of documents to skip, and asks
  it for the count of the documents that match; both calls can throw. They are the
  parameters \<open>find\<close> and \<open>count\<close> of the handlers.
\<close>

record user_query =
  q_rol :: "string option"
  q_near :: "near option"

record user_list_params =
  p_page :: "string option"
  p_limit :: "string option"
  p_rol :: "string option"
  p_ubicacion :: "qvalue option"
  p_radio :: "string option"

text \<open>\<open>.select('-password')\<close> on the query, then \<open>toJSON\<close> of each document when
  the response is written.\<close>

definition user_selected :: "oid \<Rightarrow> user \<Rightarrow> json" where
  "user_selected i u = JObj (delete_key ''password'' (delete_key ''password'' (user_toObject i u)))"

text \<open>The two queries and the response, for a filter, a page and a limit.\<close>

definition users_page ::
  "(user_query \<Rightarrow> number \<Rightarrow> number \<Rightarrow> (oid \<times> user) list \<Rightarrow> exn + (oid \<times> user) list)
   \<Rightarrow> (user_query \<Rightarrow> (oid \<times> user) list \<Rightarrow> exn + nat)
   \<Rightarrow> store \<Rightarrow> user_query \<Rightarrow> number \<Rightarrow> number \<Rightarrow> response" where
  "users_page find_docs count s finalQuery page limit =
     (case find_docs finalQuery limit (num_mul (num_sub page (Num 1)) limit) (users s) of
        Inl err \<Rightarrow> internal_error
      | Inr found \<Rightarrow>
         (case count finalQuery (users s) of
            Inl err \<Rightarrow> internal_error
          | Inr n \<Rightarrow>
             \<lparr>status = 200, body = JObj [(''success'', JBool True),
                (''message'', JStr ''Usuarios obtenidos exitosamente''),
                (''data'', JObj [
                   (''users'', JArr (map (\<lambda>(i, u). user_selected i u) found)),
                   (''pagination'', pagination ''totalUsers'' page limit n)])]\<rparr>))"

definition user_filter :: "user_list_params \<Rightarrow> near option \<Rightarrow> user_query" where
  "user_filter p geoQuery =
     \<lparr>q_rol = (if truthy (p_rol p) \<and> the (p_rol p) \<in> set [''oferente'', ''solicitante'']
               then p_rol p else None),
      q_near = geoQuery\<rparr>"

definition getUsers ::
  "(user_query \<Rightarrow> number \<Rightarrow> number \<Rightarrow> (oid \<times> user) list \<Rightarrow> exn + (oid \<times> user) list)
   \<Rightarrow> (user_query \<Rightarrow> (oid \<times> user) list \<Rightarrow> exn + nat)
   \<Rightarrow> store \<Rightarrow> user_list_params \<Rightarrow> response" where
  "getUsers find_docs count s p =
    (case geo_query (p_ubicacion p) (p_radio p) of
       Inl err \<Rightarrow> formato_invalido
     | Inr geoQuery \<Rightarrow>
         users_page find_docs count s (user_filter p geoQuery)
           (int_param 1 (p_page p)) (int_param 10 (p_limit p)))"

record service_query =
  q_categoria :: "string option"
  q_estado :: "string option"
  q_nearS :: "near option"

record service_list_params =
  l_page :: "string option"
  l_limit :: "string option"
  l_categoria :: "string option"
  l_estado :: "string option"
  l_ubicacion :: "qvalue option"
  l_radio :: "string option"
  l_ordenarPor :: "string option"
  l_orden :: "string option"

abbreviation (input) owner_fields_loc :: "string list" where
  "owner_fields_loc \<equiv> [''nombre'', ''email'', ''telefono'', ''rol'', ''ubicacion'']"

definition echo :: "string \<Rightarrow> json option \<Rightarrow> (string \<times> json) list" where
  "echo k v = (case v of None \<Rightarrow> [] | Some x \<Rightarrow> [(k, x)])"

definition service_filter :: "service_list_params \<Rightarrow> near option \<Rightarrow> service_query" where
  "service_filter p geoQuery =
     \<lparr>q_categoria = (if truthy (l_categoria p) then l_categoria p else None),
      q_estado = (if truthy (l_estado p)
                     \<and> the (l_estado p) \<in> set [''pendiente'', ''en progreso'', ''completado'']
                  then l_estado p else None),
      q_nearS = geoQuery\<rparr>"

text \<open>\<open>sortOptions\<close>: the field, \<open>fechaPublicacion\<close> by default, and \<open>-1\<close> when
  \<open>orden\<close> is \<open>desc\<close>, which is the default.\<close>

definition sortOptions :: "service_list_params \<Rightarrow> string \<times> int" where
  "sortOptions p =
     (case l_ordenarPor p of None \<Rightarrow> ''fechaPublicacion'' | Some f \<Rightarrow> f,
      if (case l_orden p of None \<Rightarrow> True | Some d \<Rightarrow> d = ''desc'') then - 1 else 1)"

definition filters :: "service_list_params \<Rightarrow> json" where
  "filters p = JObj (echo ''categoria'' (map_option JStr (l_categoria p))
     @ echo ''estado'' (map_option JStr (l_estado p))
     @ echo ''ubicacion'' (map_option qvalue_json (l_ubicacion p))
     @ [(''radio'', json_number (int_param 10 (l_radio p)))])"

definition services_page ::
  "(service_query \<Rightarrow> string \<times> int \<Rightarrow> number \<Rightarrow> number \<Rightarrow> (oid \<times> service) list
      \<Rightarrow> exn + (oid \<times> service) list)
   \<Rightarrow> (service_query \<Rightarrow> (oid \<times> service) list \<Rightarrow> exn + nat)
   \<Rightarrow> store \<Rightarrow> service_query \<Rightarrow> string \<times> int \<Rightarrow> number \<Rightarrow> number \<Rightarrow> json \<Rightarrow> response" where
  "services_page find_docs count s finalQuery srt page limit flt =
     (case find_docs finalQuery srt limit (num_mul (num_sub page (Num 1)) limit) (services s) of
        Inl err \<Rightarrow> internal_error
      | Inr found \<Rightarrow>
         (case count finalQuery (services s) of
            Inl err \<Rightarrow> internal_error
          | Inr n \<Rightarrow>
             \<lparr>status = 200, body = JObj [(''success'', JBool True),
                (''message'', JStr ''Servicios obtenidos exitosamente''),
                (''data'', JObj [
                   (''services'',
                      JArr (map (\<lambda>(i, d). service_toJSON s owner_fields_loc i d) found)),
                   (''pagination'', pagination ''totalServices'' page limit n),
                   (''filters'', flt)])]\<rparr>))"

definition getServices ::
  "(service_query \<Rightarrow> string \<times> int \<Rightarrow> number \<Rightarrow> number \<Rightarrow> (oid \<times> service) list
      \<Rightarrow> exn + (oid \<times> service) list)
   \<Rightarrow> (service_query \<Rightarrow> (oid \<times> service) list \<Rightarrow> exn + nat)
   \<Rightarrow> store \<Rightarrow> service_list_params \<Rightarrow> response" where
  "getServices find_docs count s p =
    (case geo_query (l_ubicacion p) (l_radio p) of
       Inl err \<Rightarrow> formato_invalido
     | Inr geoQuery \<Rightarrow>
         services_page find_docs count s (service_filter p geoQuery) (sortOptions p)
           (int_param 1 (l_page p)) (int_param 10 (l_limit p)) (filters p))"

section \<open>Reading a response\<close>

text \<open>The value under a key of a JSON object, and under a key of \<open>data\<close>.\<close>

definition json_get :: "string \<Rightarrow> json \<Rightarrow> json option" where
  "json_get k j = (case j of JObj kvs \<Rightarrow> map_of kvs k | _ \<Rightarrow> None)"

definition data_field :: "string \<Rightarrow> response \<Rightarrow> json option" where
  "data_field k r = (case json_get ''data'' (body r) of None \<Rightarrow> None | Some d \<Rightarrow> json_get k d)"

section \<open>The remaining handlers\<close>










definition getServiceById :: "store \<Rightarrow> id_param \<Rightarrow> response" where
  "getServiceById s p = (case findById (services s) p of
       Inl err \<Rightarrow> internal_error
     | Inr None \<Rightarrow> fail 404 ''Servicio no encontrado''
     | Inr (Some (i, d)) \<Rightarrow>
        \<lparr>status = 200, body = JObj [(''success'', JBool True),
           (''message'', JStr ''Servicio obtenido exitosamente''),
           (''data'', JObj [(''service'', service_toJSON s owner_fields_loc i d)])]\<rparr>)"


section \<open>Sample data\<close>

definition ana :: user where
  "ana = \<lparr>nombre = ''Ana'', email = ''ana@x.com'', password = ''$2a$12$abcdefghijklmnopqrstuv'',
     telefono = None, rol = ''oferente'', skills = [], ubicacion = None\<rparr>"

definition luis :: user where
  "luis = \<lparr>nombre = ''Luis'', email = ''luis@x.com'', password = ''$2a$12$zyxwvutsrqponmlkjihgfe'',
     telefono = Some ''555 1234'', rol = ''solicitante'', skills = [''pintura''],
     ubicacion = Some [- 99.1332, 19.4326]\<rparr>"

definition poda :: service where
  "poda = \<lparr>titulo = ''Poda'', descripcion = ''Podar el seto'', categoria = ''jardineria'',
     estado = ''pendiente'', creadoPor = 1, ubicacionS = None, precio = 0, moneda = ''MXN'',
     duracionEstimada = 1, unidadDuracion = ''horas''\<rparr>"

definition mudanza :: service where
  "mudanza = \<lparr>titulo = ''Mudanza'', descripcion = ''Llevar cajas'', categoria = ''transporte'',
     estado = ''completado'', creadoPor = 2, ubicacionS = Some [- 99.1332, 19.4326],
     precio = 250, moneda = ''MXN'', duracionEstimada = 3, unidadDuracion = ''horas''\<rparr>"

definition store0 :: store where
  "store0 = \<lparr>users = [(1, ana), (2, luis)], services = [(10, poda), (11, mudanza)]\<rparr>"

definition no_updates :: service_updates where
  "no_updates = \<lparr>u_titulo = None, u_descripcion = None, u_categoria = None, u_estado = None,
     u_creadoPor = None, u_ubicacionS = None, u_precio = None, u_moneda = None,
     u_duracionEstimada = None, u_unidadDuracion = None, u_inc_precio = None,
     u_inc_duracionEstimada = None\<rparr>"

text \<open>The body \<open>{ "$inc": { "precio": -5 } }\<close>, and what \<open>updateService\<close> returns when
  the owner of the listing 10 sends it.\<close>

definition discount :: service_updates where
  "discount = no_updates\<lparr>u_inc_precio := Some (- 5)\<rparr>"

definition discounted :: "response \<times> store" where
  "discounted = updateService True store0 1 (ObjectId 10) discount"

definition ana_body :: user_body where
  "ana_body = \<lparr>b_nombre = Some ''Ana'', b_email = Some ''ana@x.com'', b_password = Some ''123456'',
     b_telefono = None, b_rol = Some ''oferente'', b_skills = None, b_ubicacion = None\<rparr>"

definition sample_hash :: "string \<Rightarrow> string" where
  "sample_hash p = ''$2a$12$'' @ rev p"

definition empty_store :: store where
  "empty_store = \<lparr>users = [], services = []\<rparr>"

definition ana_doc :: user where
  "ana_doc = \<lparr>nombre = ''Ana'', email = ''ana@x.com'', password = ''$2a$12$654321'',
     telefono = None, rol = ''oferente'', skills = [], ubicacion = None\<rparr>"

definition ana_upper :: user_body where
  "ana_upper = ana_body\<lparr>b_email := Some ''Ana@X.com''\<rparr>"

definition sample_compare :: "string \<Rightarrow> string \<Rightarrow> bool" where
  "sample_compare p h = (h = sample_hash p)"

definition sample_sign :: "oid \<Rightarrow> exn + string" where
  "sample_sign i = Inr (''eyJhbGciOiJIUzI1NiJ9.'' @ replicate i (CHR ''1''))"

definition ana_store :: store where
  "ana_store = \<lparr>users = [(1, ana_doc)], services = []\<rparr>"

definition no_user_updates :: user_updates where
  "no_user_updates = \<lparr>uu_nombre = None, uu_email = None, uu_password = None,
     uu_telefono = None, uu_rol = None, uu_skills = None, uu_ubicacion = None,
     uu_set = None\<rparr>"

definition rename :: user_updates where
  "rename = no_user_updates\<lparr>uu_nombre := Some ''Ana Maria''\<rparr>"

text \<open>The body \<open>{ "$set": { "password": "plaintext1" } }\<close>.\<close>

definition no_set :: set_operator where
  "no_set = \<lparr>o_nombre = None, o_email = None, o_password = None, o_telefono = None,
     o_rol = None, o_skills = None\<rparr>"

definition set_password :: user_updates where
  "set_password = no_user_updates\<lparr>uu_set := Some (no_set\<lparr>o_password := Some ''plaintext1''\<rparr>)\<rparr>"

definition null_lon :: ubicacion_body where
  "null_lon = Ubicacion (Some [CNull, CNum 5])"

text \<open>
  A query engine for the examples: it pages the documents that match the equality
  filters, and no document of the example stores lies near any point.
\<close>

definition window :: "number \<Rightarrow> number \<Rightarrow> 'a list \<Rightarrow> exn + 'a list" where
  "window limit skip xs = (case (limit, skip) of
       (Num l, Num k) \<Rightarrow> Inr (take (nat \<lfloor>l\<rfloor>) (drop (nat \<lfloor>k\<rfloor>) xs))
     | _ \<Rightarrow> Inl (Error ''bad cursor''))"

definition sample_user_match :: "user_query \<Rightarrow> oid \<times> user \<Rightarrow> bool" where
  "sample_user_match q d = ((case q_rol q of None \<Rightarrow> True | Some r \<Rightarrow> rol (snd d) = r)
     \<and> q_near q = None)"

definition sample_find_users ::
  "user_query \<Rightarrow> number \<Rightarrow> number \<Rightarrow> (oid \<times> user) list \<Rightarrow> exn + (oid \<times> user) list" where
  "sample_find_users q limit skip docs = window limit skip (filter (sample_user_match q) docs)"

definition sample_count_users :: "user_query \<Rightarrow> (oid \<times> user) list \<Rightarrow> exn + nat" where
  "sample_count_users q docs = Inr (length (filter (sample_user_match q) docs))"

definition sample_service_match :: "service_query \<Rightarrow> oid \<times> service \<Rightarrow> bool" where
  "sample_service_match q d =
     ((case q_categoria q of None \<Rightarrow> True | Some c \<Rightarrow> categoria (snd d) = c)
      \<and> (case q_estado q of None \<Rightarrow> True | Some e \<Rightarrow> estado (snd d) = e)
      \<and> q_nearS q = None)"

definition sample_find_services ::
  "service_query \<Rightarrow> string \<times> int \<Rightarrow> number \<Rightarrow> number \<Rightarrow> (oid \<times> service) list
     \<Rightarrow> exn + (oid \<times> service) list" where
  "sample_find_services q srt limit skip docs = window limit skip (filter (sample_service_match q) docs)"

definition sample_count_services :: "service_query \<Rightarrow> (oid \<times> service) list \<Rightarrow> exn + nat" where
  "sample_count_services q docs = Inr (length (filter (sample_service_match q) docs))"

definition no_params :: user_list_params where
  "no_params = \<lparr>p_page = None, p_limit = None, p_rol = None, p_ubicacion = None,
     p_radio = None\<rparr>"

definition no_list_params :: service_list_params where
  "no_list_params = \<lparr>l_page = None, l_limit = None, l_categoria = None, l_estado = None,
     l_ubicacion = None, l_radio = None, l_ordenarPor = None, l_orden = None\<rparr>"

section \<open>Properties of the listing lifecycle\<close>

lemma lookup_replace_other:
  "j \<noteq> i \<Longrightarrow> lookup (replace i d' docs) j = lookup docs j"
  unfolding lookup_def replace_def
  by (induction docs) (auto split: if_splits)

lemma lookup_replace_same:
  "lookup docs i = Some d \<Longrightarrow> lookup (replace i d' docs) i = Some d'"
  unfolding lookup_def replace_def
  by (induction docs) (auto split: if_splits)

lemma findById_NotObjectId: "findById docs (NotObjectId t) = Inl CastError"
  by (simp add: findById_def)

lemma findById_None: "lookup docs i = None \<Longrightarrow> findById docs (ObjectId i) = Inr None"
  by (simp add: findById_def)

lemma findById_Some:
  "lookup docs i = Some d \<Longrightarrow> findById docs (ObjectId i) = Inr (Some (i, d))"
  by (simp add: findById_def)

lemma estado_valido_Some:
  "estado_valido v = Some e \<longleftrightarrow>
     v = Some (JStr e) \<and> e \<in> {''pendiente'', ''en progreso'', ''completado''}"
  by (auto simp: estado_valido_def split: option.splits json.splits if_splits)

lemma estado_valido_None:
  "estado_valido v = None \<longleftrightarrow>
     v \<notin> {Some (JStr ''pendiente''), Some (JStr ''en progreso''), Some (JStr ''completado'')}"
  by (auto simp: estado_valido_def split: option.splits json.splits if_splits)

lemma service_errors_estado:
  "estado d \<in> {''pendiente'', ''en progreso'', ''completado''} \<Longrightarrow>
   e \<in> {''pendiente'', ''en progreso'', ''completado''} \<Longrightarrow>
   service_errors (d\<lparr>estado := e\<rparr>) = service_errors d"
  by (auto simp: service_errors_def v_estado_def estados_def)

lemma spec_allowed_estado:
  "spec_allowed a b \<Longrightarrow> a \<in> {''pendiente'', ''en progreso'', ''completado''}"
  by (auto simp: spec_allowed_def)

lemma uss_invalid:
  "estado_valido nuevoEstado = None \<Longrightarrow>
   updateServiceStatus s requester p nuevoEstado =
     (fail 400 (''Estado inv'' @ a_acute @ ''lido. Debe ser: pendiente, en progreso o completado''), s)"
  by (simp add: updateServiceStatus_def)

lemma uss_cast:
  "estado_valido nuevoEstado = Some e \<Longrightarrow>
   updateServiceStatus s requester (NotObjectId t) nuevoEstado = (internal_error, s)"
  by (simp add: updateServiceStatus_def findById_NotObjectId)

lemma uss_not_found:
  "estado_valido nuevoEstado = Some e \<Longrightarrow> lookup (services s) i = None \<Longrightarrow>
   updateServiceStatus s requester (ObjectId i) nuevoEstado =
     (fail 404 ''Servicio no encontrado'', s)"
  by (simp add: updateServiceStatus_def findById_None)

lemma uss_forbidden:
  "estado_valido nuevoEstado = Some e \<Longrightarrow> lookup (services s) i = Some d \<Longrightarrow>
   creadoPor d \<noteq> requester \<Longrightarrow>
   updateServiceStatus s requester (ObjectId i) nuevoEstado =
     (fail 403 ''No tienes permisos para cambiar el estado de este servicio'', s)"
  by (simp add: updateServiceStatus_def findById_Some)

lemma uss_branch:
  assumes "estado_valido nuevoEstado = Some e" "lookup (services s) i = Some d"
    "creadoPor d = requester" "spec_allowed (estado d) e"
  shows "updateServiceStatus s requester (ObjectId i) nuevoEstado =
     (case service_save s i (d\<lparr>estado := e\<rparr>) of
        Inl err \<Rightarrow> (internal_error, s)
      | Inr (d', s') \<Rightarrow>
         (\<lparr>status = 200, body = JObj [(''success'', JBool True),
            (''message'', JStr (''Estado del servicio cambiado a '' @ dquote @ e @ dquote)),
            (''data'', JObj [(''service'', service_toJSON s' owner_fields i d')])]\<rparr>, s'))"
proof -
  from assms(4) consider "estado d = ''pendiente'' \<and> e = ''en progreso''"
    | "estado d = ''en progreso'' \<and> e = ''completado''"
    | "estado d = ''en progreso'' \<and> e = ''pendiente''"
    by (auto simp: spec_allowed_def)
  then show ?thesis
  proof cases
    case 1
    then show ?thesis using assms(1,2,3)
      by (simp add: updateServiceStatus_def findById_Some marcarEnProgreso_def
          split: sum.splits)
  next
    case 2
    then show ?thesis using assms(1,2,3)
      by (simp add: updateServiceStatus_def findById_Some marcarCompletado_def
          split: sum.splits)
  next
    case 3
    then show ?thesis using assms(1,2,3)
      by (simp add: updateServiceStatus_def findById_Some split: sum.splits)
  qed
qed

lemma uss_allowed:
  assumes "estado_valido nuevoEstado = Some e" "lookup (services s) i = Some d"
    "creadoPor d = requester" "service_errors d = []" "spec_allowed (estado d) e"
  shows "updateServiceStatus s requester (ObjectId i) nuevoEstado =
     (\<lparr>status = 200, body = JObj [(''success'', JBool True),
        (''message'', JStr (''Estado del servicio cambiado a '' @ dquote @ e @ dquote)),
        (''data'', JObj [(''service'', service_toJSON (s\<lparr>services := replace i (d\<lparr>estado := e\<rparr>) (services s)\<rparr>) owner_fields i (d\<lparr>estado := e\<rparr>))])]\<rparr>,
      s\<lparr>services := replace i (d\<lparr>estado := e\<rparr>) (services s)\<rparr>)"
proof -
  have e: "e \<in> {''pendiente'', ''en progreso'', ''completado''}"
    using assms(1) by (simp add: estado_valido_Some)
  have v: "service_errors (d\<lparr>estado := e\<rparr>) = []"
    using service_errors_estado [OF spec_allowed_estado [OF assms(5)] e] assms(4) by simp
  show ?thesis
    by (simp add: uss_branch [OF assms(1,2,3,5)] service_save_def v)
qed

lemma uss_invalid_document:
  assumes "estado_valido nuevoEstado = Some e" "lookup (services s) i = Some d"
    "creadoPor d = requester" "service_errors d \<noteq> []" "spec_allowed (estado d) e"
  shows "updateServiceStatus s requester (ObjectId i) nuevoEstado = (internal_error, s)"
proof -
  have e: "e \<in> {''pendiente'', ''en progreso'', ''completado''}"
    using assms(1) by (simp add: estado_valido_Some)
  have v: "service_errors (d\<lparr>estado := e\<rparr>) \<noteq> []"
    using service_errors_estado [OF spec_allowed_estado [OF assms(5)] e] assms(4) by simp
  show ?thesis
    by (simp add: uss_branch [OF assms(1,2,3,5)] service_save_def v)
qed

lemma uss_conflict:
  assumes "estado_valido nuevoEstado = Some e" "lookup (services s) i = Some d"
    "creadoPor d = requester" "\<not> spec_allowed (estado d) e"
  shows "updateServiceStatus s requester (ObjectId i) nuevoEstado = (conflict (estado d) e, s)"
proof -
  have n: "\<not> (e = ''en progreso'' \<and> estado d = ''pendiente'')"
    "\<not> (e = ''completado'' \<and> estado d = ''en progreso'')"
    "\<not> (e = ''pendiente'' \<and> estado d = ''en progreso'')"
    using assms(4) unfolding spec_allowed_def by blast+
  show ?thesis
    unfolding updateServiceStatus_def conflict_def findById_Some [OF assms(2)]
    using assms(1,3) n
    by (simp only: option.case sum.case prod.case if_False if_True simp_thms)
qed

lemma store0_poda: "lookup (services store0) 10 = Some poda"
  by (simp add: store0_def lookup_def)

lemma poda_valid: "service_errors poda = []"
  by (simp add: poda_def service_errors_def v_titulo_def v_descripcion_def v_categoria_def
      categorias_def v_estado_def estados_def v_coords_def v_precio_def v_moneda_def
      v_duracionEstimada_def v_unidadDuracion_def)

lemma us_eval_discount:
  "updateService b store0 1 (ObjectId 10) discount =
    (\<lparr>status = 200, body = JObj [(''success'', JBool True),
        (''message'', JStr ''Servicio actualizado exitosamente''),
        (''data'', JObj [(''service'', service_toJSON
           (store0\<lparr>services := [(10, poda\<lparr>precio := - 5\<rparr>), (11, mudanza)]\<rparr>)
           owner_fields 10 (poda\<lparr>precio := - 5\<rparr>))])]\<rparr>,
     store0\<lparr>services := [(10, poda\<lparr>precio := - 5\<rparr>), (11, mudanza)]\<rparr>)"
  by (simp add: updateService_def store0_def findById_def lookup_def poda_def
      puedeSerEditado_def discount_def no_updates_def procesar_ubicacion_def
      service_findByIdAndUpdate_def cast_loc_def service_update_errors_def on_key_def
      v_loc_def service_update_conflict_def increment_def
      service_apply_def override_def set_loc_def replace_def Let_def)

lemma discounted_invalid: "service_errors (poda\<lparr>precio := - 5\<rparr>) \<noteq> []"
  by (simp add: service_errors_def v_precio_def)

text \<open>
  C1, where the claim fails. With a valid requested status, an identifier of the URL
  that is no object identifier is answered 500, not 404: \<open>findById\<close> throws and the
  \<open>catch\<close> has one answer. And a transition of the table is answered 500, with the
  status unchanged, when the stored listing does not pass the validation that \<open>save\<close>
  runs on the whole document. Such a listing is reachable: the owner of the pending
  listing 10 sends \<open>{ "$inc": { "precio": -5 } }\<close> to \<open>updateService\<close>, which stores
  the price \<open>-5\<close> because update validators skip \<open>$inc\<close>.
\<close>

theorem updateServiceStatus_counterexample:
  "updateServiceStatus store0 1 (NotObjectId ''abc'') (Some (JStr ''en progreso''))
     = (internal_error, store0)
   \<and> status internal_error = 500
   \<and> updateService True store0 1 (ObjectId 10) discount = (fst discounted, snd discounted)
   \<and> status (fst discounted) = 200
   \<and> lookup (services (snd discounted)) 10 = Some (poda\<lparr>precio := - 5\<rparr>)
   \<and> creadoPor (poda\<lparr>precio := - 5\<rparr>) = 1
   \<and> spec_allowed (estado (poda\<lparr>precio := - 5\<rparr>)) ''en progreso''
   \<and> updateServiceStatus (snd discounted) 1 (ObjectId 10) (Some (JStr ''en progreso''))
       = (internal_error, snd discounted)"
proof -
  have v: "estado_valido (Some (JStr ''en progreso'')) = Some ''en progreso''"
    by (simp add: estado_valido_def)
  have a: "updateServiceStatus store0 1 (NotObjectId ''abc'') (Some (JStr ''en progreso''))
     = (internal_error, store0)"
    using v by (rule uss_cast)
  have b: "status internal_error = 500" by (simp add: internal_error_def fail_def)
  have d: "discounted = updateService True store0 1 (ObjectId 10) discount"
    by (simp add: discounted_def)
  have c: "status (fst discounted) = 200"
    unfolding d by (subst us_eval_discount) simp
  have l: "lookup (services (snd discounted)) 10 = Some (poda\<lparr>precio := - 5\<rparr>)"
    unfolding d by (subst us_eval_discount) (simp add: lookup_def)
  have o: "creadoPor (poda\<lparr>precio := - 5\<rparr>) = 1" by (simp add: poda_def)
  have t: "spec_allowed (estado (poda\<lparr>precio := - 5\<rparr>)) ''en progreso''"
    by (simp add: poda_def spec_allowed_def)
  have e: "updateServiceStatus (snd discounted) 1 (ObjectId 10) (Some (JStr ''en progreso''))
       = (internal_error, snd discounted)"
    using v l o discounted_invalid t by (rule uss_invalid_document)
  from a b d c l o t e show ?thesis by simp
qed

text \<open>
  C1, amended. \<open>updateServiceStatus\<close> checks in this order: a requested status that is
  not one of the three strings is answered 400; an identifier that is no object
  identifier is answered 500; an identifier that resolves to no listing is answered
  404; a requester who is not the owner is answered 403; a transition outside the
  table is answered with the conflict message naming the current and the requested
  status, and the store is unchanged; a transition of the table is answered 200 and
  stores the requested status when the stored listing passes the validation of its
  schema, and is answered 500 with the store unchanged when it does not.
\<close>

theorem updateServiceStatus_state_machine:
  "(nuevoEstado \<notin> {Some (JStr ''pendiente''), Some (JStr ''en progreso''),
                     Some (JStr ''completado'')} \<longrightarrow>
      updateServiceStatus s requester p nuevoEstado =
        (fail 400 (''Estado inv'' @ a_acute
           @ ''lido. Debe ser: pendiente, en progreso o completado''), s))
   \<and> (\<forall>e. nuevoEstado = Some (JStr e) \<and> e \<in> {''pendiente'', ''en progreso'', ''completado''} \<longrightarrow>
        (\<forall>t. p = NotObjectId t \<longrightarrow>
           updateServiceStatus s requester p nuevoEstado = (internal_error, s))
      \<and> (\<forall>i. p = ObjectId i \<longrightarrow>
           (lookup (services s) i = None \<longrightarrow>
              updateServiceStatus s requester p nuevoEstado =
                (fail 404 ''Servicio no encontrado'', s))
         \<and> (\<forall>d. lookup (services s) i = Some d \<longrightarrow>
              (creadoPor d \<noteq> requester \<longrightarrow>
                 updateServiceStatus s requester p nuevoEstado =
                   (fail 403 ''No tienes permisos para cambiar el estado de este servicio'', s))
            \<and> (creadoPor d = requester \<and> \<not> spec_allowed (estado d) e \<longrightarrow>
                 updateServiceStatus s requester p nuevoEstado = (conflict (estado d) e, s))
            \<and> (creadoPor d = requester \<and> spec_allowed (estado d) e \<and> service_errors d \<noteq> [] \<longrightarrow>
                 updateServiceStatus s requester p nuevoEstado = (internal_error, s))
            \<and> (creadoPor d = requester \<and> spec_allowed (estado d) e \<and> service_errors d = [] \<longrightarrow>
                 status (fst (updateServiceStatus s requester p nuevoEstado)) = 200
               \<and> snd (updateServiceStatus s requester p nuevoEstado)
                   = s\<lparr>services := replace i (d\<lparr>estado := e\<rparr>) (services s)\<rparr>
               \<and> lookup (services (snd (updateServiceStatus s requester p nuevoEstado))) i
                   = Some (d\<lparr>estado := e\<rparr>)))))"
proof (intro conjI allI impI)
  assume "nuevoEstado \<notin> {Some (JStr ''pendiente''), Some (JStr ''en progreso''),
                     Some (JStr ''completado'')}"
  then have "estado_valido nuevoEstado = None" by (rule estado_valido_None[THEN iffD2])
  then show "updateServiceStatus s requester p nuevoEstado =
        (fail 400 (''Estado inv'' @ a_acute
           @ ''lido. Debe ser: pendiente, en progreso o completado''), s)"
    by (rule uss_invalid)
next
  fix e t
  assume "nuevoEstado = Some (JStr e) \<and> e \<in> {''pendiente'', ''en progreso'', ''completado''}"
  then have v: "estado_valido nuevoEstado = Some e" by (rule estado_valido_Some[THEN iffD2])
  assume "p = NotObjectId t"
  with v show "updateServiceStatus s requester p nuevoEstado = (internal_error, s)"
    by (simp add: uss_cast)
next
  fix e i
  assume "nuevoEstado = Some (JStr e) \<and> e \<in> {''pendiente'', ''en progreso'', ''completado''}"
  then have v: "estado_valido nuevoEstado = Some e" by (rule estado_valido_Some[THEN iffD2])
  assume p: "p = ObjectId i"
  {
    assume "lookup (services s) i = None"
    with v show "updateServiceStatus s requester p nuevoEstado =
             (fail 404 ''Servicio no encontrado'', s)"
      unfolding p by (rule uss_not_found)
  }
  fix d
  assume d: "lookup (services s) i = Some d"
  {
    assume "creadoPor d \<noteq> requester"
    with v d show "updateServiceStatus s requester p nuevoEstado =
                (fail 403 ''No tienes permisos para cambiar el estado de este servicio'', s)"
      unfolding p by (rule uss_forbidden)
  }
  {
    assume "creadoPor d = requester \<and> \<not> spec_allowed (estado d) e"
    with v d show "updateServiceStatus s requester p nuevoEstado = (conflict (estado d) e, s)"
      unfolding p by (simp add: uss_conflict)
  }
  {
    assume "creadoPor d = requester \<and> spec_allowed (estado d) e \<and> service_errors d \<noteq> []"
    with v d show "updateServiceStatus s requester p nuevoEstado = (internal_error, s)"
      unfolding p by (simp add: uss_invalid_document)
  }
  assume a: "creadoPor d = requester \<and> spec_allowed (estado d) e \<and> service_errors d = []"
  then have r: "updateServiceStatus s requester p nuevoEstado =
     (\<lparr>status = 200, body = JObj [(''success'', JBool True),
        (''message'', JStr (''Estado del servicio cambiado a '' @ dquote @ e @ dquote)),
        (''data'', JObj [(''service'', service_toJSON (s\<lparr>services := replace i (d\<lparr>estado := e\<rparr>) (services s)\<rparr>) owner_fields i (d\<lparr>estado := e\<rparr>))])]\<rparr>,
      s\<lparr>services := replace i (d\<lparr>estado := e\<rparr>) (services s)\<rparr>)"
    using v d unfolding p by (simp add: uss_allowed)
  show "status (fst (updateServiceStatus s requester p nuevoEstado)) = 200"
    by (simp add: r)
  show "snd (updateServiceStatus s requester p nuevoEstado)
                = s\<lparr>services := replace i (d\<lparr>estado := e\<rparr>) (services s)\<rparr>"
    by (simp add: r)
  show "lookup (services (snd (updateServiceStatus s requester p nuevoEstado))) i
                = Some (d\<lparr>estado := e\<rparr>)"
    using d by (simp add: r lookup_replace_same)
qed

theorem updateServiceStatus_state_machine_witness:
  "status (fst (updateServiceStatus store0 1 (ObjectId 10) (Some (JStr ''en progreso'')))) = 200
   \<and> snd (updateServiceStatus store0 1 (ObjectId 10) (Some (JStr ''en progreso'')))
       = store0\<lparr>services := replace 10 (poda\<lparr>estado := ''en progreso''\<rparr>) (services store0)\<rparr>
   \<and> lookup (services (snd (updateServiceStatus store0 1 (ObjectId 10)
         (Some (JStr ''en progreso''))))) 10
       = Some (poda\<lparr>estado := ''en progreso''\<rparr>)"
proof -
  have e: "Some (JStr ''en progreso'') = Some (JStr ''en progreso'')
     \<and> ''en progreso'' \<in> {''pendiente'', ''en progreso'', ''completado''}"
    by simp
  have p: "ObjectId 10 = ObjectId 10" by simp
  have b: "creadoPor poda = 1 \<and> spec_allowed (estado poda) ''en progreso''
     \<and> service_errors poda = []"
    by (simp add: poda_valid) (simp add: poda_def spec_allowed_def)
  show ?thesis
    by (rule updateServiceStatus_state_machine
          [of "Some (JStr ''en progreso'')" store0 1 "ObjectId 10",
          THEN conjunct2, THEN spec, THEN mp, OF e, THEN conjunct2, THEN spec, THEN mp, OF p,
          THEN conjunct2, THEN spec, THEN mp,
          OF store0_poda, THEN conjunct2, THEN conjunct2, THEN conjunct2, THEN mp, OF b])
qed

lemma completado_neq: "''completado'' \<noteq> ''pendiente''" "''completado'' \<noteq> ''en progreso''"
  by simp_all

lemma procesar_ubicacion_Inl:
  "procesar_ubicacion u = Inl r \<Longrightarrow> status r = 400"
  by (auto simp: procesar_ubicacion_def fail_def Let_def
      split: option.splits ubicacion_body.splits if_splits)

lemma us_cast:
  "updateService b s requester (NotObjectId t) up = (internal_error, s)"
  by (simp add: updateService_def findById_NotObjectId)

lemma us_not_found:
  "lookup (services s) i = None \<Longrightarrow>
   updateService b s requester (ObjectId i) up = (fail 404 ''Servicio no encontrado'', s)"
  by (simp add: updateService_def findById_None)

lemma us_forbidden:
  "lookup (services s) i = Some d \<Longrightarrow> creadoPor d \<noteq> requester \<Longrightarrow>
   updateService b s requester (ObjectId i) up =
     (fail 403 ''No tienes permisos para editar este servicio'', s)"
  by (simp add: updateService_def findById_Some)

lemma us_not_pending:
  "lookup (services s) i = Some d \<Longrightarrow> creadoPor d = requester \<Longrightarrow>
   estado d \<noteq> ''pendiente'' \<Longrightarrow>
   updateService b s requester (ObjectId i) up =
     (fail 400 ''Solo se pueden editar servicios en estado pendiente'', s)"
  by (simp add: updateService_def findById_Some puedeSerEditado_def)

lemma us_completado:
  assumes "lookup (services s) i = Some d" "estado d = ''completado''"
  shows "snd (updateService b s requester (ObjectId i) updates) = s"
  using assms by (simp add: updateService_def findById_Some puedeSerEditado_def)

lemma uss_completado:
  assumes "lookup (services s) i = Some d" "estado d = ''completado''"
  shows "snd (updateServiceStatus s requester (ObjectId i) nuevoEstado) = s"
proof (cases "estado_valido nuevoEstado")
  case None
  then show ?thesis by (simp add: updateServiceStatus_def)
next
  case (Some e)
  then show ?thesis using assms completado_neq
    by (simp add: updateServiceStatus_def findById_Some)
qed

text \<open>A request that names another listing leaves this one as it is.\<close>

lemma sfau_frame:
  "service_findByIdAndUpdate b s j up l = Inr (r, s') \<Longrightarrow> j \<noteq> i \<Longrightarrow>
   lookup (services s') i = lookup (services s) i"
  by (auto simp: service_findByIdAndUpdate_def Let_def lookup_replace_other
      split: sum.splits if_splits option.splits)

lemma us_frame:
  assumes "j \<noteq> i"
  shows "lookup (services (snd (updateService b s requester (ObjectId j) up))) i
     = lookup (services s) i"
proof (cases "lookup (services s) j")
  case None
  then show ?thesis by (simp add: us_not_found)
next
  case (Some d)
  note f = findById_Some [OF Some]
  show ?thesis
  proof (cases "creadoPor d \<noteq> requester \<or> \<not> puedeSerEditado d")
    case True
    then show ?thesis using f by (auto simp: updateService_def)
  next
    case ok: False
    show ?thesis
    proof (cases "procesar_ubicacion (u_ubicacionS up)")
      case (Inl r)
      with ok f show ?thesis by (simp add: updateService_def)
    next
      case (Inr l)
      show ?thesis
      proof (cases "service_findByIdAndUpdate b s j up l")
        case e: (Inl err)
        with ok f Inr show ?thesis by (cases err) (simp_all add: updateService_def)
      next
        case r: (Inr res)
        obtain d' s' where res: "res = (d', s')" by (cases res)
        from sfau_frame [OF r [unfolded res] assms]
        have "lookup (services s') i = lookup (services s) i" .
        with ok f Inr r res show ?thesis by (simp add: updateService_def)
      qed
    qed
  qed
qed

lemma service_save_frame:
  "service_save s j x = Inr (d', s') \<Longrightarrow> j \<noteq> i \<Longrightarrow>
   lookup (services s') i = lookup (services s) i"
  by (auto simp: service_save_def lookup_replace_other split: if_splits)

lemma uss_frame:
  assumes "j \<noteq> i"
  shows "lookup (services (snd (updateServiceStatus s requester (ObjectId j) nuevoEstado))) i
     = lookup (services s) i"
proof (cases "estado_valido nuevoEstado")
  case None
  then show ?thesis by (simp add: uss_invalid)
next
  case v: (Some e)
  show ?thesis
  proof (cases "lookup (services s) j")
    case None
    with v show ?thesis by (simp add: uss_not_found)
  next
    case (Some d)
    show ?thesis
    proof (cases "creadoPor d = requester")
      case False
      with v Some show ?thesis by (simp add: uss_forbidden)
    next
      case o: True
      show ?thesis
      proof (cases "spec_allowed (estado d) e")
        case False
        with v Some o show ?thesis by (simp add: uss_conflict)
      next
        case True
        show ?thesis
        proof (cases "service_save s j (d\<lparr>estado := e\<rparr>)")
          case (Inl err)
          then show ?thesis by (simp add: uss_branch [OF v Some o True])
        next
          case (Inr res)
          obtain d' s' where res: "res = (d', s')" by (cases res)
          from service_save_frame [OF Inr [unfolded res] assms]
          have "lookup (services s') i = lookup (services s) i" .
          with Inr res show ?thesis by (simp add: uss_branch [OF v Some o True])
        qed
      qed
    qed
  qed
qed

lemma us_completado_any:
  assumes "lookup (services s) i = Some d" "estado d = ''completado''"
  shows "map_option estado (lookup (services (snd (updateService b s requester p updates))) i)
     = Some ''completado''"
proof (cases p)
  case (NotObjectId t)
  then show ?thesis using assms by (simp add: us_cast)
next
  case (ObjectId j)
  show ?thesis
  proof (cases "j = i")
    case True
    then show ?thesis using assms ObjectId by (simp add: us_completado)
  next
    case False
    then show ?thesis using assms ObjectId by (simp add: us_frame)
  qed
qed

lemma uss_completado_any:
  assumes "lookup (services s) i = Some d" "estado d = ''completado''"
  shows "map_option estado
      (lookup (services (snd (updateServiceStatus s requester p nuevoEstado))) i)
     = Some ''completado''"
proof (cases p)
  case (NotObjectId t)
  show ?thesis
  proof (cases "estado_valido nuevoEstado")
    case None
    then show ?thesis using assms by (simp add: uss_invalid)
  next
    case (Some e)
    then show ?thesis using assms NotObjectId by (simp add: uss_cast)
  qed
next
  case (ObjectId j)
  show ?thesis
  proof (cases "j = i")
    case True
    then show ?thesis using assms ObjectId by (simp add: uss_completado)
  next
    case False
    then show ?thesis using assms ObjectId by (simp add: uss_frame)
  qed
qed

text \<open>
  C2. A listing whose status is \<open>completado\<close> keeps it: \<open>updateService\<close> and
  \<open>updateServiceStatus\<close> on its identifier leave the store as it is, for every
  requester and every body, and a request with any other identifier leaves its status
  as it is.
\<close>

theorem completado_is_terminal:
  assumes "lookup (services s) i = Some d" and "estado d = ''completado''"
  shows "snd (updateService b s requester (ObjectId i) updates) = s
    \<and> snd (updateServiceStatus s requester (ObjectId i) nuevoEstado) = s
    \<and> map_option estado
        (lookup (services (snd (updateService b s requester (ObjectId i) updates))) i)
        = Some ''completado''
    \<and> map_option estado
        (lookup (services (snd (updateServiceStatus s requester (ObjectId i) nuevoEstado))) i)
        = Some ''completado''
    \<and> (\<forall>p. map_option estado
          (lookup (services (snd (updateService b s requester p updates))) i)
          = Some ''completado'')
    \<and> (\<forall>p. map_option estado
          (lookup (services (snd (updateServiceStatus s requester p nuevoEstado))) i)
          = Some ''completado'')"
  using assms
  by (simp add: us_completado uss_completado us_completado_any uss_completado_any)

lemma store0_mudanza: "lookup (services store0) 11 = Some mudanza"
  by (simp add: store0_def lookup_def)

theorem completado_is_terminal_witness:
  "snd (updateService True store0 2 (ObjectId 11) (no_updates\<lparr>u_estado := Some ''pendiente''\<rparr>))
      = store0
    \<and> snd (updateServiceStatus store0 2 (ObjectId 11) (Some (JStr ''pendiente''))) = store0
    \<and> map_option estado (lookup (services (snd (updateService True store0 2 (ObjectId 11)
          (no_updates\<lparr>u_estado := Some ''pendiente''\<rparr>)))) 11) = Some ''completado''
    \<and> map_option estado (lookup (services (snd (updateServiceStatus store0 2 (ObjectId 11)
          (Some (JStr ''pendiente''))))) 11) = Some ''completado''
    \<and> map_option estado (lookup (services (snd (updateService True store0 2 (ObjectId 10)
          (no_updates\<lparr>u_estado := Some ''pendiente''\<rparr>)))) 11) = Some ''completado''
    \<and> map_option estado (lookup (services (snd (updateServiceStatus store0 2
          (NotObjectId ''abc'') (Some (JStr ''pendiente''))))) 11) = Some ''completado''"
proof -
  have e: "estado mudanza = ''completado''" by (simp add: mudanza_def)
  note t = completado_is_terminal [OF store0_mudanza e, of True 2
      "no_updates\<lparr>u_estado := Some ''pendiente''\<rparr>" "Some (JStr ''pendiente'')"]
  from t [THEN conjunct1] t [THEN conjunct2, THEN conjunct1]
    t [THEN conjunct2, THEN conjunct2, THEN conjunct1]
    t [THEN conjunct2, THEN conjunct2, THEN conjunct2, THEN conjunct1]
    t [THEN conjunct2, THEN conjunct2, THEN conjunct2, THEN conjunct2, THEN conjunct1,
       THEN spec, of "ObjectId 10"]
    t [THEN conjunct2, THEN conjunct2, THEN conjunct2, THEN conjunct2, THEN conjunct2,
       THEN spec, of "NotObjectId ''abc''"]
  show ?thesis by (intro conjI)
qed

lemma us_success_only_pending:
  assumes "status (fst (updateService b s requester p up)) = 200"
  shows "\<exists>i d. p = ObjectId i \<and> lookup (services s) i = Some d \<and> creadoPor d = requester
           \<and> estado d = ''pendiente''"
proof (cases p)
  case (NotObjectId t)
  with assms show ?thesis by (simp add: us_cast internal_error_def fail_def)
next
  case (ObjectId i)
  show ?thesis
  proof (cases "lookup (services s) i")
    case None
    with assms ObjectId show ?thesis by (simp add: us_not_found fail_def)
  next
    case (Some d)
    show ?thesis
    proof (cases "creadoPor d = requester")
      case False
      with Some assms ObjectId show ?thesis by (simp add: us_forbidden fail_def)
    next
      case True
      show ?thesis
      proof (cases "estado d = ''pendiente''")
        case False
        with Some True assms ObjectId show ?thesis by (simp add: us_not_pending fail_def)
      next
        case p: True
        with Some True ObjectId show ?thesis by simp
      qed
    qed
  qed
qed

lemma us_eval_titulo:
  "updateService b store0 1 (ObjectId 10) (no_updates\<lparr>u_titulo := Some '' Poda de setos ''\<rparr>) =
    (\<lparr>status = 200, body = JObj [(''success'', JBool True),
        (''message'', JStr ''Servicio actualizado exitosamente''),
        (''data'', JObj [(''service'', service_toJSON
           (store0\<lparr>services := [(10, poda\<lparr>titulo := ''Poda de setos''\<rparr>), (11, mudanza)]\<rparr>)
           owner_fields 10 (poda\<lparr>titulo := ''Poda de setos''\<rparr>))])]\<rparr>,
     store0\<lparr>services := [(10, poda\<lparr>titulo := ''Poda de setos''\<rparr>), (11, mudanza)]\<rparr>)"
  by (simp add: updateService_def store0_def findById_def lookup_def poda_def
      puedeSerEditado_def
      no_updates_def procesar_ubicacion_def service_findByIdAndUpdate_def cast_loc_def
      service_update_errors_def on_key_def v_loc_def v_titulo_def trim_def is_space_def
      service_update_conflict_def increment_def
      service_apply_def override_def set_loc_def replace_def Let_def)

text \<open>
  C4, where the claim fails. An identifier of the URL that is no object identifier
  resolves to no listing, and \<open>updateService\<close> answers it 500, not 404: \<open>findById\<close>
  throws a \<open>CastError\<close>, for which the \<open>catch\<close> has no answer of its own.
\<close>

theorem updateService_malformed_id_counterexample:
  "updateService True store0 1 (NotObjectId ''abc'') no_updates = (internal_error, store0)
   \<and> status (fst (updateService True store0 1 (NotObjectId ''abc'') no_updates)) = 500"
  by (simp add: us_cast internal_error_def fail_def)

text \<open>
  C4, amended. \<open>updateService\<close> answers 500 when the identifier is no object
  identifier, then 404 when it resolves to no listing, then 403 when the requester is
  not the owner, whatever the status, then 400 with the message that only pending
  listings can be edited when the owner edits a listing that is in progress or
  completed. A 200 is sent only for a pending listing edited by its owner.
\<close>

theorem updateService_check_order:
  "(\<forall>t. p = NotObjectId t \<longrightarrow> updateService b s requester p up = (internal_error, s))
   \<and> (\<forall>i. p = ObjectId i \<longrightarrow>
        (lookup (services s) i = None \<longrightarrow>
           updateService b s requester p up = (fail 404 ''Servicio no encontrado'', s))
      \<and> (\<forall>d. lookup (services s) i = Some d \<longrightarrow>
           (creadoPor d \<noteq> requester \<longrightarrow>
              updateService b s requester p up =
                (fail 403 ''No tienes permisos para editar este servicio'', s))
         \<and> (creadoPor d = requester \<and> estado d \<noteq> ''pendiente'' \<longrightarrow>
              updateService b s requester p up =
                (fail 400 ''Solo se pueden editar servicios en estado pendiente'', s))))
   \<and> (status (fst (updateService b s requester p up)) = 200 \<longrightarrow>
        (\<exists>i d. p = ObjectId i \<and> lookup (services s) i = Some d \<and> creadoPor d = requester
           \<and> estado d = ''pendiente''))"
proof (intro conjI allI impI)
  fix t assume "p = NotObjectId t"
  then show "updateService b s requester p up = (internal_error, s)"
    by (simp add: us_cast)
next
  fix i assume p: "p = ObjectId i" and "lookup (services s) i = None"
  then show "updateService b s requester p up = (fail 404 ''Servicio no encontrado'', s)"
    by (simp add: us_not_found)
next
  fix i d assume "p = ObjectId i" "lookup (services s) i = Some d" "creadoPor d \<noteq> requester"
  then show "updateService b s requester p up =
                (fail 403 ''No tienes permisos para editar este servicio'', s)"
    by (simp add: us_forbidden)
next
  fix i d assume "p = ObjectId i" "lookup (services s) i = Some d"
    "creadoPor d = requester \<and> estado d \<noteq> ''pendiente''"
  then show "updateService b s requester p up =
                (fail 400 ''Solo se pueden editar servicios en estado pendiente'', s)"
    by (simp add: us_not_pending)
next
  assume "status (fst (updateService b s requester p up)) = 200"
  then show "\<exists>i d. p = ObjectId i \<and> lookup (services s) i = Some d \<and> creadoPor d = requester
           \<and> estado d = ''pendiente''"
    by (rule us_success_only_pending)
qed

theorem updateService_check_order_witness:
  "updateService True store0 1 (NotObjectId ''abc'') no_updates = (internal_error, store0)
   \<and> updateService True store0 1 (ObjectId 99) no_updates
       = (fail 404 ''Servicio no encontrado'', store0)
   \<and> updateService True store0 1 (ObjectId 11) no_updates =
       (fail 403 ''No tienes permisos para editar este servicio'', store0)
   \<and> updateService True store0 2 (ObjectId 11) no_updates =
       (fail 400 ''Solo se pueden editar servicios en estado pendiente'', store0)
   \<and> status (fst (updateService True store0 1 (ObjectId 10)
         (no_updates\<lparr>u_titulo := Some '' Poda de setos ''\<rparr>))) = 200
   \<and> (\<exists>i d. ObjectId 10 = ObjectId i \<and> lookup (services store0) i = Some d \<and> creadoPor d = 1
         \<and> estado d = ''pendiente'')"
proof -
  have m: "NotObjectId ''abc'' = NotObjectId ''abc''" by simp
  have p99: "ObjectId 99 = ObjectId 99" and p11: "ObjectId 11 = ObjectId 11" by simp_all
  have n: "lookup (services store0) 99 = None"
    by (simp add: store0_def lookup_def)
  have f: "creadoPor mudanza \<noteq> 1" by (simp add: mudanza_def)
  have c: "creadoPor mudanza = 2 \<and> estado mudanza \<noteq> ''pendiente''" by (simp add: mudanza_def)
  have ok: "status (fst (updateService True store0 1 (ObjectId 10)
         (no_updates\<lparr>u_titulo := Some '' Poda de setos ''\<rparr>))) = 200"
    by (subst us_eval_titulo) simp
  note t = updateService_check_order
  from t [of "NotObjectId ''abc''" True store0 1 no_updates, THEN conjunct1, THEN spec, THEN mp,
       OF m]
    t [of "ObjectId 99" True store0 1 no_updates, THEN conjunct2, THEN conjunct1, THEN spec,
       THEN mp, OF p99, THEN conjunct1, THEN mp, OF n]
    t [of "ObjectId 11" True store0 1 no_updates, THEN conjunct2, THEN conjunct1, THEN spec,
       THEN mp, OF p11, THEN conjunct2, THEN spec, THEN mp,
       OF store0_mudanza, THEN conjunct1, THEN mp, OF f]
    t [of "ObjectId 11" True store0 2 no_updates, THEN conjunct2, THEN conjunct1, THEN spec,
       THEN mp, OF p11, THEN conjunct2, THEN spec, THEN mp,
       OF store0_mudanza, THEN conjunct2, THEN mp, OF c]
    ok
    t [of "ObjectId 10" True store0 1 "no_updates\<lparr>u_titulo := Some '' Poda de setos ''\<rparr>",
       THEN conjunct2, THEN conjunct2, THEN mp, OF ok]
  show ?thesis by (intro conjI)
qed

lemma us_eval_owner:
  "updateService b store0 1 (ObjectId 10) (no_updates\<lparr>u_creadoPor := Some 2\<rparr>) =
    (\<lparr>status = 200, body = JObj [(''success'', JBool True),
        (''message'', JStr ''Servicio actualizado exitosamente''),
        (''data'', JObj [(''service'', service_toJSON
           (store0\<lparr>services := [(10, poda\<lparr>creadoPor := 2\<rparr>), (11, mudanza)]\<rparr>)
           owner_fields 10 (poda\<lparr>creadoPor := 2\<rparr>))])]\<rparr>,
     store0\<lparr>services := [(10, poda\<lparr>creadoPor := 2\<rparr>), (11, mudanza)]\<rparr>)"
  by (simp add: updateService_def store0_def findById_def lookup_def poda_def
      puedeSerEditado_def
      no_updates_def procesar_ubicacion_def service_findByIdAndUpdate_def cast_loc_def
      service_update_errors_def on_key_def v_loc_def
      service_update_conflict_def increment_def
      service_apply_def override_def set_loc_def replace_def Let_def)

text \<open>
  C3, at a failing input. The owner of the pending listing 10, user 1, sends the body
  \<open>{ creadoPor: 2 }\<close>. The body reaches \<open>findByIdAndUpdate\<close> as it came, the answer is
  200, and the stored listing now belongs to user 2.
\<close>

theorem updateService_reassigns_owner:
  "status (fst (updateService b store0 1 (ObjectId 10) (no_updates\<lparr>u_creadoPor := Some 2\<rparr>)))
     = 200
   \<and> map_option creadoPor (lookup (services store0) 10) = Some 1
   \<and> map_option creadoPor (lookup (services (snd (updateService b store0 1 (ObjectId 10)
        (no_updates\<lparr>u_creadoPor := Some 2\<rparr>)))) 10) = Some 2"
proof -
  have a: "map_option creadoPor (lookup (services store0) 10) = Some 1"
    by (simp add: store0_def lookup_def poda_def)
  have b: "status (fst (updateService b store0 1 (ObjectId 10)
      (no_updates\<lparr>u_creadoPor := Some 2\<rparr>))) = 200"
    by (subst us_eval_owner) simp
  have c: "map_option creadoPor (lookup (services (snd (updateService b store0 1 (ObjectId 10)
        (no_updates\<lparr>u_creadoPor := Some 2\<rparr>)))) 10) = Some 2"
    by (subst us_eval_owner) (simp add: lookup_def)
  from b a c show ?thesis by (intro conjI)
qed

section \<open>Properties of registration\<close>

lemma v_email_ana: "v_email ''ana@x.com'' = []"
  by (simp add: v_email_def email_regex_def is_word_def)

lemma createUser_ana: "createUser sample_hash empty_store ana_body =
  (\<lparr>status = 201, body = JObj [(''success'', JBool True),
                    (''message'', JStr ''Usuario creado exitosamente''),
                    (''data'', JObj [(''user'', JObj [(''_id'', JId 1), (''nombre'', JStr ''Ana''),
     (''email'', JStr ''ana@x.com''), (''rol'', JStr ''oferente''), (''skills'', JArr [])])])]\<rparr>,
   \<lparr>users = [(1, ana_doc)], services = []\<rparr>)"
  by (simp add: createUser_def ana_body_def truthy_def bad_location_def cast_location_def body_coords_def
     new_User_def user_insert_def user_errors_def v_nombre_def v_email_ana trim_def is_space_def toLowerCase_def lower_char_def
     v_password_def on_key_def v_rol_def v_coords_def new_oid_def empty_store_def email_taken_def sample_hash_def Let_def user_toJSON_def user_toObject_def delete_key_def json_coords_def ana_doc_def)

lemma fold_max_ge: "a \<le> fold max xs (a::nat)"
  by (induction xs arbitrary: a) (auto intro: order_trans[OF max.cobounded2])

lemma fold_max_mem: "x \<in> set xs \<Longrightarrow> x \<le> fold max xs (a::nat)"
proof (induction xs arbitrary: a)
  case Nil
  then show ?case by simp
next
  case (Cons y ys)
  show ?case
  proof (cases "x = y")
    case True
    have "y \<le> max y a" by simp
    also have "\<dots> \<le> fold max ys (max y a)" by (rule fold_max_ge)
    finally show ?thesis using True by simp
  next
    case False
    with Cons show ?thesis by simp
  qed
qed

lemma new_oid_fresh: "(j, d) \<in> set docs \<Longrightarrow> j \<noteq> new_oid docs"
proof
  assume m: "(j, d) \<in> set docs" and e: "j = new_oid docs"
  from m have "j \<in> set (map fst docs)" by force
  then have "j \<le> fold max (map fst docs) 0" by (rule fold_max_mem)
  with e show False by (simp add: new_oid_def)
qed

lemma lower_char_idem: "lower_char (lower_char c) = lower_char c"
  by (auto simp: lower_char_def Let_def)

lemma toLowerCase_idem: "toLowerCase (toLowerCase s) = toLowerCase s"
  by (simp add: toLowerCase_def lower_char_idem)

lemma set_trim: "set (trim s) \<subseteq> set s"
proof -
  have "set (dropWhile is_space (rev (dropWhile is_space s))) \<subseteq> set (rev (dropWhile is_space s))"
    by (meson set_dropWhileD subsetI)
  also have "\<dots> \<subseteq> set s" using set_dropWhileD by fastforce
  finally show ?thesis by (simp add: trim_def)
qed

lemma toLowerCase_fixed: "(\<forall>c \<in> set s. lower_char c = c) \<Longrightarrow> toLowerCase s = s"
  by (simp add: toLowerCase_def map_idI)

lemma toLowerCase_trim: "toLowerCase (trim (toLowerCase s)) = trim (toLowerCase s)"
proof (rule toLowerCase_fixed, rule ballI)
  fix c assume "c \<in> set (trim (toLowerCase s))"
  then have "c \<in> set (toLowerCase s)" using set_trim by blast
  then obtain d where "c = lower_char d" by (auto simp: toLowerCase_def)
  then show "lower_char c = c" by (simp add: lower_char_idem)
qed

lemma email_new_User: "b_email b = Some e \<Longrightarrow> email (new_User b loc) = trim (toLowerCase e)"
  by (simp add: new_User_def toLowerCase_idem)

lemma user_insert_cases:
  "user_insert hash s u =
     (if user_errors u \<noteq> [] then Inl (ValidationError (user_errors u))
      else if email_taken (users s) (new_oid (users s)) (email u) then Inl DuplicateKey
      else Inr (new_oid (users s), u\<lparr>password := hash (password u)\<rparr>,
                s\<lparr>users := users s @ [(new_oid (users s), u\<lparr>password := hash (password u)\<rparr>)]\<rparr>))"
  by (simp add: user_insert_def Let_def)

lemma email_taken_mem:
  "(j, u0) \<in> set docs \<Longrightarrow> email u0 = e \<Longrightarrow> email_taken docs (new_oid docs) e"
  unfolding email_taken_def list_ex_iff using new_oid_fresh by fastforce

lemma createUser_201:
  assumes "status (fst (createUser hash s b)) = 201"
  shows "\<exists>loc. truthy (b_nombre b) \<and> truthy (b_email b) \<and> truthy (b_password b) \<and> truthy (b_rol b)
     \<and> \<not> bad_location (b_ubicacion b) \<and> cast_location (b_ubicacion b) = Inr loc
     \<and> user_errors (new_User b loc) = []
     \<and> \<not> email_taken (users s) (new_oid (users s)) (email (new_User b loc))
     \<and> snd (createUser hash s b) = s\<lparr>users := users s @ [(new_oid (users s),
           (new_User b loc)\<lparr>password := hash (password (new_User b loc))\<rparr>)]\<rparr>"
  using assms unfolding createUser_def user_insert_cases
  by (auto simp: fail_def fail_errors_def internal_error_def split: if_splits sum.splits exn.splits)

lemma createUser_taken:
  assumes "\<And>loc. email_taken (users s) (new_oid (users s)) (email (new_User b loc))"
  shows "snd (createUser hash s b) = s \<and> status (fst (createUser hash s b)) \<noteq> 201"
  using assms unfolding createUser_def user_insert_cases
  by (auto simp: fail_def fail_errors_def internal_error_def split: if_splits sum.splits exn.splits)

lemma createUser_taken_valid:
  assumes "\<And>loc. email_taken (users s) (new_oid (users s)) (email (new_User b loc))"
    and "truthy (b_nombre b)" "truthy (b_email b)" "truthy (b_password b)" "truthy (b_rol b)"
    and "\<not> bad_location (b_ubicacion b)" "cast_location (b_ubicacion b) = Inr loc"
    and "user_errors (new_User b loc) = []"
  shows "fst (createUser hash s b) = registered"
  using assms unfolding createUser_def user_insert_cases registered_def
  by simp

text \<open>
  C5. When a registration has succeeded and a second request carries an email that
  differs from the first at most in letter case, the second request creates no record
  and is not answered 201; if it would have been accepted without the first, it is
  answered 400 with the message that the email is already registered. The stored email
  of the first user is the trimmed lower-case form of what was sent.
\<close>

theorem duplicate_email_rejected:
  assumes "b_email b1 = Some e1" and "b_email b2 = Some e2"
    and "toLowerCase e2 = toLowerCase e1"
    and "status (fst (createUser hash s b1)) = 201"
  shows "snd (createUser hash (snd (createUser hash s b1)) b2) = snd (createUser hash s b1)
    \<and> status (fst (createUser hash (snd (createUser hash s b1)) b2)) \<noteq> 201
    \<and> (status (fst (createUser hash s b2)) = 201 \<longrightarrow>
         fst (createUser hash (snd (createUser hash s b1)) b2) = registered)
    \<and> (\<exists>i u. users (snd (createUser hash s b1)) = users s @ [(i, u)]
          \<and> email u = trim (toLowerCase e1) \<and> toLowerCase (email u) = email u)"
proof -
  let ?s1 = "snd (createUser hash s b1)"
  from createUser_201 [OF assms(4)] obtain loc1 where
    s1: "?s1 = s\<lparr>users := users s @ [(new_oid (users s),
           (new_User b1 loc1)\<lparr>password := hash (password (new_User b1 loc1))\<rparr>)]\<rparr>"
    by blast
  let ?u1 = "(new_User b1 loc1)\<lparr>password := hash (password (new_User b1 loc1))\<rparr>"
  have e1: "email ?u1 = trim (toLowerCase e1)"
    using assms(1) by (simp add: email_new_User)
  have m: "(new_oid (users s), ?u1) \<in> set (users ?s1)" by (simp add: s1)
  have taken: "\<And>loc. email_taken (users ?s1) (new_oid (users ?s1)) (email (new_User b2 loc))"
  proof -
    fix loc
    have "email ?u1 = email (new_User b2 loc)"
      using assms(2,3) e1 by (simp add: email_new_User)
    with m show "email_taken (users ?s1) (new_oid (users ?s1)) (email (new_User b2 loc))"
      by (rule email_taken_mem)
  qed
  have a: "snd (createUser hash ?s1 b2) = ?s1 \<and> status (fst (createUser hash ?s1 b2)) \<noteq> 201"
    using taken by (rule createUser_taken)
  have b: "status (fst (createUser hash s b2)) = 201 \<longrightarrow> fst (createUser hash ?s1 b2) = registered"
  proof
    assume "status (fst (createUser hash s b2)) = 201"
    from createUser_201 [OF this] obtain loc2 where
      "truthy (b_nombre b2)" "truthy (b_email b2)" "truthy (b_password b2)" "truthy (b_rol b2)"
      "\<not> bad_location (b_ubicacion b2)" "cast_location (b_ubicacion b2) = Inr loc2"
      "user_errors (new_User b2 loc2) = []"
      by blast
    with taken show "fst (createUser hash ?s1 b2) = registered"
      by (rule createUser_taken_valid)
  qed
  have c: "\<exists>i u. users ?s1 = users s @ [(i, u)]
          \<and> email u = trim (toLowerCase e1) \<and> toLowerCase (email u) = email u"
  proof (intro exI conjI)
    show "users ?s1 = users s @ [(new_oid (users s), ?u1)]" by (simp add: s1)
    show "email ?u1 = trim (toLowerCase e1)" by (rule e1)
    show "toLowerCase (email ?u1) = email ?u1" by (simp only: e1 toLowerCase_trim)
  qed
  from a b c show ?thesis by blast
qed

theorem duplicate_email_rejected_witness:
  "snd (createUser sample_hash (snd (createUser sample_hash empty_store ana_body)) ana_upper)
     = snd (createUser sample_hash empty_store ana_body)
   \<and> status (fst (createUser sample_hash (snd (createUser sample_hash empty_store ana_body))
         ana_upper)) \<noteq> 201
   \<and> fst (createUser sample_hash (snd (createUser sample_hash empty_store ana_body)) ana_upper)
       = registered
   \<and> (\<exists>i u. users (snd (createUser sample_hash empty_store ana_body))
          = users empty_store @ [(i, u)]
          \<and> email u = trim (toLowerCase ''ana@x.com'') \<and> toLowerCase (email u) = email u)"
proof -
  have a: "b_email ana_body = Some ''ana@x.com''" by (simp add: ana_body_def)
  have b: "b_email ana_upper = Some ''Ana@X.com''" by (simp add: ana_upper_def)
  have c: "toLowerCase ''Ana@X.com'' = toLowerCase ''ana@x.com''"
    by code_simp
  have d: "status (fst (createUser sample_hash empty_store ana_body)) = 201"
    by (subst createUser_ana) simp
  have e: "new_User ana_upper None = new_User ana_body None"
    by (simp add: new_User_def ana_upper_def ana_body_def c)
  have h: "b_nombre ana_upper = b_nombre ana_body" "b_password ana_upper = b_password ana_body"
    "b_rol ana_upper = b_rol ana_body" "b_ubicacion ana_upper = b_ubicacion ana_body"
    by (simp_all add: ana_upper_def)
  have f: "createUser sample_hash empty_store ana_upper = createUser sample_hash empty_store ana_body"
    by (simp add: createUser_def h a b truthy_def)
      (simp add: ana_body_def cast_location_def body_coords_def e)
  have g: "status (fst (createUser sample_hash empty_store ana_upper)) = 201"
    by (simp only: f d)
  note t = duplicate_email_rejected [OF a b c d]
  from t [THEN conjunct1] t [THEN conjunct2, THEN conjunct1]
    t [THEN conjunct2, THEN conjunct2, THEN conjunct1, THEN mp, OF g]
    t [THEN conjunct2, THEN conjunct2, THEN conjunct2]
  show ?thesis by (intro conjI)
qed

section \<open>Properties of authentication\<close>




text \<open>On an email and a password that are non-empty strings, an email that no user has
  and a wrong password for an existing user get the same response.\<close>

lemma login_unknown:
  "e \<noteq> [] \<Longrightarrow> truthy_json pw \<Longrightarrow> findOne_email (users s) (toLowerCase e) = None \<Longrightarrow>
   login compare sign s (Some (JStr e)) pw = credenciales"
  by (simp add: login_def truthy_json_def)

lemma login_wrong:
  "e \<noteq> [] \<Longrightarrow> p \<noteq> [] \<Longrightarrow> findOne_email (users s) (toLowerCase e) = Some (i, u) \<Longrightarrow>
   \<not> compare p (password u) \<Longrightarrow>
   login compare sign s (Some (JStr e)) (Some (JStr p)) = credenciales"
  by (simp add: login_def truthy_json_def comparePassword_def)

lemma login_ok:
  "e \<noteq> [] \<Longrightarrow> p \<noteq> [] \<Longrightarrow> findOne_email (users s) (toLowerCase e) = Some (i, u) \<Longrightarrow>
   compare p (password u) \<Longrightarrow> sign i = Inr token \<Longrightarrow>
   login compare sign s (Some (JStr e)) (Some (JStr p)) =
     \<lparr>status = 200, body = JObj [(''success'', JBool True),
        (''message'', JStr (''Inicio de sesi'' @ o_acute @ ''n exitoso'')),
        (''data'', JObj [(''user'', user_toJSON i u), (''token'', JStr token)])]\<rparr>"
  by (simp add: login_def truthy_json_def comparePassword_def)

text \<open>A password that is truthy and no string reaches \<open>bcrypt.compare\<close> when the email
  is found, and only then.\<close>

lemma login_illegal_arguments:
  "e \<noteq> [] \<Longrightarrow> truthy_json (Some pw) \<Longrightarrow> \<forall>p. pw \<noteq> JStr p \<Longrightarrow>
   findOne_email (users s) (toLowerCase e) = Some (i, u) \<Longrightarrow>
   login compare sign s (Some (JStr e)) (Some pw) = internal_error"
  by (cases pw) (simp_all add: login_def truthy_json_def comparePassword_def)

lemma lower_ana: "toLowerCase ''ana@x.com'' = ''ana@x.com''"
  by code_simp

lemma lower_nadie: "toLowerCase ''nadie@x.com'' = ''nadie@x.com''"
  by code_simp

lemma trim_ana_email: "trim ''ana@x.com'' = ''ana@x.com''"
  by (simp add: trim_def is_space_def)

lemma trim_nadie: "trim ''nadie@x.com'' = ''nadie@x.com''"
  by (simp add: trim_def is_space_def)

lemma find_ana: "findOne_email (users ana_store) (toLowerCase ''ana@x.com'') = Some (1, ana_doc)"
  unfolding lower_ana findOne_email_def trim_ana_email
  by (simp add: ana_store_def) (simp add: ana_doc_def)

lemma find_nadie: "findOne_email (users ana_store) (toLowerCase ''nadie@x.com'') = None"
  unfolding lower_nadie findOne_email_def trim_nadie
  by (simp add: ana_store_def ana_doc_def)

text \<open>
  C7, at a failing input. Ana is registered with the email \<open>ana@x.com\<close>. The body
  \<open>{ email: "ana@x.com", password: 123456 }\<close>, whose password is a number, is
  answered 500: the user is found and \<open>bcrypt.compare\<close> rejects the number. The same
  password with the email \<open>nadie@x.com\<close>, which no user has, is answered 401. The two
  responses differ, so the response tells whether the email is registered.
\<close>

theorem login_reveals_registered_email:
  "login sample_compare sample_sign ana_store (Some (JStr ''ana@x.com'')) (Some (JNum 123456))
     = internal_error
   \<and> login sample_compare sample_sign ana_store (Some (JStr ''nadie@x.com''))
       (Some (JNum 123456)) = credenciales
   \<and> status internal_error = 500
   \<and> status credenciales = 401"
proof -
  have t: "truthy_json (Some (JNum 123456))" by (simp add: truthy_json_def)
  have n: "\<forall>p. JNum 123456 \<noteq> JStr p" by simp
  have a: "login sample_compare sample_sign ana_store (Some (JStr ''ana@x.com''))
      (Some (JNum 123456)) = internal_error"
    by (rule login_illegal_arguments [OF _ t n find_ana]) simp
  have b: "login sample_compare sample_sign ana_store (Some (JStr ''nadie@x.com''))
       (Some (JNum 123456)) = credenciales"
    by (rule login_unknown [OF _ t find_nadie]) simp
  from a b show ?thesis
    by (simp add: internal_error_def credenciales_def fail_def)
qed

theorem login_reveals_registered_email_witness:
  "login sample_compare sample_sign ana_store (Some (JStr ''ana@x.com'')) (Some (JNum 123456))
     \<noteq> login sample_compare sample_sign ana_store (Some (JStr ''nadie@x.com''))
         (Some (JNum 123456))"
proof
  assume e: "login sample_compare sample_sign ana_store (Some (JStr ''ana@x.com''))
      (Some (JNum 123456))
     = login sample_compare sample_sign ana_store (Some (JStr ''nadie@x.com''))
         (Some (JNum 123456))"
  note t = login_reveals_registered_email
  from e have "internal_error = credenciales"
    unfolding t [THEN conjunct1] t [THEN conjunct2, THEN conjunct1] .
  then have "status internal_error = status credenciales" by simp
  then show False
    unfolding t [THEN conjunct2, THEN conjunct2, THEN conjunct1]
      t [THEN conjunct2, THEN conjunct2, THEN conjunct2] by simp
qed

section \<open>Properties of the user update\<close>

text \<open>A non-empty password at the top of the body is stripped: the request is handled
  as the same request without the key.\<close>

lemma cleaned_password_nonempty:
  "p \<noteq> [] \<Longrightarrow> cleaned (up\<lparr>uu_password := Some p\<rparr>) l = cleaned (up\<lparr>uu_password := None\<rparr>) l"
  by (simp add: cleaned_def strip_password_def truthy_def)

lemma updateUser_strips:
  "p \<noteq> [] \<Longrightarrow>
   updateUser b s i (up\<lparr>uu_password := Some p\<rparr>) = updateUser b s i (up\<lparr>uu_password := None\<rparr>)"
  by (simp add: updateUser_def cleaned_password_nonempty
      split: sum.splits option.splits prod.splits)

lemma user_fau_cases:
  "user_findByIdAndUpdate b s i st = Inr (r, s') \<Longrightarrow>
     user_update_errors st = [] \<and>
     ((r = None \<and> s' = s \<and> lookup (users s) i = None) \<or>
      (\<exists>u. lookup (users s) i = Some u \<and> r = Some (user_apply b st u)
          \<and> s' = s\<lparr>users := replace i (user_apply b st u) (users s)\<rparr>))"
  by (auto simp: user_findByIdAndUpdate_def Let_def split: sum.splits if_splits option.splits)

lemma updateUser_cast: "status (fst (updateUser b s (NotObjectId t) up)) \<noteq> 200
   \<and> snd (updateUser b s (NotObjectId t) up) = s"
  by (simp add: updateUser_def findById_NotObjectId internal_error_def fail_def)

lemma updateUser_outcome:
  "(status (fst (updateUser b s (ObjectId i) up)) \<noteq> 200
      \<and> snd (updateUser b s (ObjectId i) up) = s)
   \<or> (status (fst (updateUser b s (ObjectId i) up)) = 200 \<and>
       (\<exists>u l. lookup (users s) i = Some u
          \<and> user_update_errors (cleaned up l) = []
          \<and> snd (updateUser b s (ObjectId i) up)
              = s\<lparr>users := replace i (user_apply b (cleaned up l) u) (users s)\<rparr>))"
proof (cases "clean_nombre (uu_nombre up) = Some []")
  case True
  then show ?thesis by (simp add: updateUser_def)
next
  case n: False
  show ?thesis
  proof (cases "lookup (users s) i")
    case None
    with n show ?thesis by (simp add: updateUser_def findById_None fail_def)
  next
    case (Some u)
    note f = findById_Some [OF Some]
    show ?thesis
    proof (cases "procesar_ubicacion (uu_ubicacion up)")
      case (Inl r)
      with n f procesar_ubicacion_Inl [OF Inl] show ?thesis
        by (simp add: updateUser_def)
    next
      case (Inr l)
      show ?thesis
      proof (cases "user_findByIdAndUpdate b s i (cleaned up l)")
        case e: (Inl err)
        with n f Inr show ?thesis
          by (cases err) (simp_all add: updateUser_def fail_def fail_errors_def internal_error_def)
      next
        case r: (Inr res)
        obtain d s' where res: "res = (d, s')" by (cases res)
        from user_fau_cases [OF r [unfolded res]] Some
        have v: "user_update_errors (cleaned up l) = []"
          and d: "d = Some (user_apply b (cleaned up l) u)"
          and s': "s' = s\<lparr>users := replace i (user_apply b (cleaned up l) u) (users s)\<rparr>"
          by auto
        have "status (fst (updateUser b s (ObjectId i) up)) = 200"
          using n f Inr r res d by (simp add: updateUser_def)
        moreover have "snd (updateUser b s (ObjectId i) up)
              = s\<lparr>users := replace i (user_apply b (cleaned up l) u) (users s)\<rparr>"
          using n f Inr r res d s' by (simp add: updateUser_def)
        ultimately show ?thesis using Some v by blast
      qed
    qed
  qed
qed

lemma updateUser_not_200:
  "status (fst (updateUser b s p up)) \<noteq> 200 \<Longrightarrow> snd (updateUser b s p up) = s"
proof (cases p)
  case (NotObjectId t)
  then show ?thesis using updateUser_cast by simp
next
  case (ObjectId i)
  assume "status (fst (updateUser b s p up)) \<noteq> 200"
  then show ?thesis unfolding ObjectId using updateUser_outcome [of b s i up] by blast
qed

lemma updateUser_200:
  assumes "status (fst (updateUser b s (ObjectId i) up)) = 200"
  shows "\<exists>u l. lookup (users s) i = Some u
     \<and> user_update_errors (cleaned up l) = []
     \<and> snd (updateUser b s (ObjectId i) up)
         = s\<lparr>users := replace i (user_apply b (cleaned up l) u) (users s)\<rparr>"
  using updateUser_outcome [of b s i up] assms by blast

text \<open>When the body carries no password under \<open>$set\<close>, the stored hash is the same
  after \<open>updateUser\<close>.\<close>

lemma cleaned_password_error:
  "\<forall>ops. uu_set up = Some ops \<longrightarrow> o_password ops = None \<Longrightarrow>
   user_update_errors (cleaned up l) = [] \<Longrightarrow> s_password (cleaned up l) = None"
  by (auto simp: user_update_errors_def cleaned_def strip_password_def truthy_def on_key_def
      v_password_def or_set_def split: option.splits if_splits)

lemma updateUser_keeps_password:
  assumes "\<forall>ops. uu_set up = Some ops \<longrightarrow> o_password ops = None"
  shows "map_option password (lookup (users (snd (updateUser b s (ObjectId i) up))) i)
     = map_option password (lookup (users s) i)"
proof (cases "status (fst (updateUser b s (ObjectId i) up)) = 200")
  case False
  then show ?thesis by (simp add: updateUser_not_200)
next
  case True
  from updateUser_200 [OF this] obtain u l where
    u: "lookup (users s) i = Some u" and
    e: "user_update_errors (cleaned up l) = []" and
    s': "snd (updateUser b s (ObjectId i) up)
      = s\<lparr>users := replace i (user_apply b (cleaned up l) u) (users s)\<rparr>"
    by blast
  have "password (user_apply b (cleaned up l) u) = password u"
    using cleaned_password_error [OF assms e] by (simp add: user_apply_def override_def)
  then show ?thesis
    using u by (simp add: s' lookup_replace_same)
qed

lemma trim_ana: "trim ''Ana Maria'' = ''Ana Maria''"
  by (simp add: trim_def is_space_def)

lemma ana_store_1: "lookup (users ana_store) 1 = Some ana_doc"
  by (simp add: ana_store_def lookup_def)

lemma rename_eval:
  "updateUser b ana_store (ObjectId 1) rename =
     (\<lparr>status = 200, body = JObj [(''success'', JBool True),
         (''message'', JStr ''Usuario actualizado exitosamente''),
         (''data'', JObj [(''user'', user_toJSON 1 (ana_doc\<lparr>nombre := ''Ana Maria''\<rparr>))])]\<rparr>,
      ana_store\<lparr>users := [(1, ana_doc\<lparr>nombre := ''Ana Maria''\<rparr>)]\<rparr>)"
proof -
  have c: "cleaned rename Untouched = \<lparr>s_nombre = Some ''Ana Maria'', s_email = None,
      s_password = None, s_telefono = TelAbsent, s_rol = None, s_skills = None,
      s_ubicacion = Untouched\<rparr>"
    by (simp add: cleaned_def rename_def no_user_updates_def clean_nombre_def trim_ana
        strip_password_def truthy_def clean_telefono_def clean_skills_def or_set_def
        tel_or_set_def)
  have e: "user_update_errors (cleaned rename Untouched) = []"
    unfolding c by (simp add: user_update_errors_def on_key_def trim_ana v_nombre_def v_tel_def
        v_loc_def)
  have a: "user_apply b (cleaned rename Untouched) ana_doc = ana_doc\<lparr>nombre := ''Ana Maria''\<rparr>"
    unfolding c by (simp add: user_apply_def override_def trim_ana set_tel_def set_loc_def
        ana_doc_def)
  have t: "\<not> email_taken (users ana_store) 1 (email (ana_doc\<lparr>nombre := ''Ana Maria''\<rparr>))"
    by (simp add: email_taken_def ana_store_def)
  have f: "user_findByIdAndUpdate b ana_store 1 (cleaned rename Untouched) =
      Inr (Some (ana_doc\<lparr>nombre := ''Ana Maria''\<rparr>),
           ana_store\<lparr>users := [(1, ana_doc\<lparr>nombre := ''Ana Maria''\<rparr>)]\<rparr>)"
    using e a t ana_store_1
    by (simp add: user_findByIdAndUpdate_def c cast_loc_def Let_def)
      (simp add: ana_store_def replace_def)
  have n: "clean_nombre (uu_nombre rename) \<noteq> Some []"
    by (simp add: rename_def no_user_updates_def clean_nombre_def trim_ana)
  have p: "procesar_ubicacion (uu_ubicacion rename) = Inr Untouched"
    by (simp add: rename_def no_user_updates_def procesar_ubicacion_def)
  show ?thesis
    using n p f findById_Some [OF ana_store_1] by (simp add: updateUser_def)
qed

lemma rename_empty_password_eval:
  "updateUser b ana_store (ObjectId 1) (rename\<lparr>uu_password := Some []\<rparr>) =
     (fail_errors (''Datos de usuario inv'' @ a_acute @ ''lidos'')
        [''La contrase'' @ n_tilde @ ''a es obligatoria''], ana_store)"
proof -
  have c: "cleaned (rename\<lparr>uu_password := Some []\<rparr>) Untouched =
     \<lparr>s_nombre = Some ''Ana Maria'', s_email = None,
      s_password = Some [], s_telefono = TelAbsent, s_rol = None, s_skills = None,
      s_ubicacion = Untouched\<rparr>"
    by (simp add: cleaned_def rename_def no_user_updates_def clean_nombre_def trim_ana
        strip_password_def truthy_def clean_telefono_def clean_skills_def or_set_def
        tel_or_set_def)
  have e: "user_update_errors (cleaned (rename\<lparr>uu_password := Some []\<rparr>) Untouched)
      = [''La contrase'' @ n_tilde @ ''a es obligatoria'']"
    unfolding c by (simp add: user_update_errors_def on_key_def trim_ana v_nombre_def v_tel_def
        v_loc_def v_password_def)
  have f: "user_findByIdAndUpdate b ana_store 1 (cleaned (rename\<lparr>uu_password := Some []\<rparr>) Untouched)
      = Inl (ValidationError [''La contrase'' @ n_tilde @ ''a es obligatoria''])"
    using e unfolding c by (simp add: user_findByIdAndUpdate_def cast_loc_def)
  have n: "clean_nombre (uu_nombre (rename\<lparr>uu_password := Some []\<rparr>)) \<noteq> Some []"
    by (simp add: rename_def no_user_updates_def clean_nombre_def trim_ana)
  have p: "procesar_ubicacion (uu_ubicacion (rename\<lparr>uu_password := Some []\<rparr>)) = Inr Untouched"
    by (simp add: rename_def no_user_updates_def procesar_ubicacion_def)
  show ?thesis
    using n p f findById_Some [OF ana_store_1] by (simp add: updateUser_def)
qed

lemma set_password_eval:
  "updateUser b ana_store (ObjectId 1) set_password =
     (\<lparr>status = 200, body = JObj [(''success'', JBool True),
         (''message'', JStr ''Usuario actualizado exitosamente''),
         (''data'', JObj [(''user'', user_toJSON 1 (ana_doc\<lparr>password := ''plaintext1''\<rparr>))])]\<rparr>,
      ana_store\<lparr>users := [(1, ana_doc\<lparr>password := ''plaintext1''\<rparr>)]\<rparr>)"
proof -
  have c: "cleaned set_password Untouched = \<lparr>s_nombre = None, s_email = None,
      s_password = Some ''plaintext1'', s_telefono = TelAbsent, s_rol = None, s_skills = None,
      s_ubicacion = Untouched\<rparr>"
    by (simp add: cleaned_def set_password_def no_user_updates_def no_set_def clean_nombre_def
        strip_password_def truthy_def clean_telefono_def clean_skills_def or_set_def
        tel_or_set_def)
  have e: "user_update_errors (cleaned set_password Untouched) = []"
    unfolding c by (simp add: user_update_errors_def on_key_def v_password_def v_tel_def
        v_loc_def)
  have a: "user_apply b (cleaned set_password Untouched) ana_doc
      = ana_doc\<lparr>password := ''plaintext1''\<rparr>"
    unfolding c by (simp add: user_apply_def override_def set_tel_def set_loc_def ana_doc_def)
  have t: "\<not> email_taken (users ana_store) 1 (email (ana_doc\<lparr>password := ''plaintext1''\<rparr>))"
    by (simp add: email_taken_def ana_store_def)
  have f: "user_findByIdAndUpdate b ana_store 1 (cleaned set_password Untouched) =
      Inr (Some (ana_doc\<lparr>password := ''plaintext1''\<rparr>),
           ana_store\<lparr>users := [(1, ana_doc\<lparr>password := ''plaintext1''\<rparr>)]\<rparr>)"
    using e a t ana_store_1
    by (simp add: user_findByIdAndUpdate_def c cast_loc_def Let_def)
      (simp add: ana_store_def replace_def)
  have n: "clean_nombre (uu_nombre set_password) \<noteq> Some []"
    by (simp add: set_password_def no_user_updates_def clean_nombre_def)
  have p: "procesar_ubicacion (uu_ubicacion set_password) = Inr Untouched"
    by (simp add: set_password_def no_user_updates_def procesar_ubicacion_def)
  show ?thesis
    using n p f findById_Some [OF ana_store_1] by (simp add: updateUser_def)
qed

text \<open>
  C9, at a failing input. The body \<open>{ "$set": { "password": "plaintext1" } }\<close> has no
  key \<open>password\<close> of its own, so \<open>if (updates.password)\<close> strips nothing and the
  operator reaches \<open>findByIdAndUpdate\<close>: the request is answered 200 and the stored
  credential of the user, a hash before, is the text \<open>plaintext1\<close> afterwards. Nor do
  the remaining fields always proceed: with the password \<open>""\<close> the same test is false,
  the key stays, the \<open>required\<close> validator refuses it, and the new name sent along is
  answered 400 and not stored, while it is stored without the password key.
\<close>

theorem updateUser_set_operator_rewrites_password:
  "status (fst (updateUser True ana_store (ObjectId 1) set_password)) = 200
   \<and> map_option password (lookup (users ana_store) 1) = Some ''$2a$12$654321''
   \<and> map_option password
        (lookup (users (snd (updateUser True ana_store (ObjectId 1) set_password))) 1)
       = Some ''plaintext1''
   \<and> fst (updateUser True ana_store (ObjectId 1) (rename\<lparr>uu_password := Some []\<rparr>)) =
       fail_errors (''Datos de usuario inv'' @ a_acute @ ''lidos'')
         [''La contrase'' @ n_tilde @ ''a es obligatoria'']
   \<and> map_option nombre (lookup (users (snd (updateUser True ana_store (ObjectId 1)
        (rename\<lparr>uu_password := Some []\<rparr>)))) 1) = Some ''Ana''
   \<and> status (fst (updateUser True ana_store (ObjectId 1) rename)) = 200
   \<and> map_option nombre (lookup (users (snd (updateUser True ana_store (ObjectId 1) rename))) 1)
       = Some ''Ana Maria''"
  unfolding rename_empty_password_eval rename_eval set_password_eval
  by (simp add: lookup_def ana_store_def ana_doc_def)

lemma procesar_null_lon: "procesar_ubicacion (Some null_lon) = Inr (Point None (Some 5))"
  by (simp add: procesar_ubicacion_def null_lon_def js_index_def isNaN_def toNumber_def
      js_lt_def js_gt_def parseFloat_coord_def)

text \<open>
  C8, at a failing input. The coordinates \<open>[null, 5]\<close> are neither empty nor both
  \<open>null\<close>, and there are two of them; \<open>isNaN(null)\<close> is false and \<open>null\<close> compares as
  0, so the block reports nothing and rewrites the location to the point
  \<open>[parseFloat(null), 5]\<close>, whose longitude is \<open>NaN\<close>. The store fails to cast it,
  which is no \<open>ValidationError\<close>, and both handlers answer 500.
\<close>

theorem null_coordinate_passes_validation:
  "procesar_ubicacion (Some null_lon) = Inr (Point None (Some 5))
   \<and> updateUser b ana_store (ObjectId 1) (no_user_updates\<lparr>uu_ubicacion := Some null_lon\<rparr>)
       = (internal_error, ana_store)
   \<and> updateService b store0 1 (ObjectId 10) (no_updates\<lparr>u_ubicacionS := Some null_lon\<rparr>)
       = (internal_error, store0)
   \<and> status internal_error = 500"
proof -
  have u: "updateUser b ana_store (ObjectId 1) (no_user_updates\<lparr>uu_ubicacion := Some null_lon\<rparr>)
       = (internal_error, ana_store)"
    using findById_Some [OF ana_store_1] procesar_null_lon
    by (simp add: updateUser_def no_user_updates_def clean_nombre_def
        user_findByIdAndUpdate_def cleaned_def cast_loc_def)
  have s: "updateService b store0 1 (ObjectId 10) (no_updates\<lparr>u_ubicacionS := Some null_lon\<rparr>)
       = (internal_error, store0)"
    using findById_Some [OF store0_poda] procesar_null_lon
    by (simp add: updateService_def no_updates_def puedeSerEditado_def
        service_findByIdAndUpdate_def cast_loc_def) (simp add: poda_def)
  have i: "status internal_error = 500" by (simp add: internal_error_def fail_def)
  from procesar_null_lon u s i show ?thesis by (intro conjI)
qed

section \<open>Properties of the list handlers\<close>

lemma geo_query_string: "\<exists>g. geo_query (Some (QStr u)) r = Inr g"
  by (simp add: geo_query_def Let_def split: prod.splits)

lemma geo_query_NaN:
  "num_isNaN (fst (parsed_ubicacion u)) \<or> num_isNaN (snd (parsed_ubicacion u)) \<Longrightarrow>
   geo_query (Some (QStr u)) r = Inr None"
  by (auto simp: geo_query_def Let_def split: prod.splits)

lemma geo_query_None: "geo_query None r = Inr None"
  by (simp add: geo_query_def)

lemma geo_query_throws:
  "\<forall>u. v \<noteq> QStr u \<Longrightarrow> \<exists>err. geo_query (Some v) r = Inl err"
  by (cases v) (simp_all add: geo_query_def)


lemma users_page_status:
  "status (users_page f c s q page limit) = 200 \<or> status (users_page f c s q page limit) = 500"
  unfolding users_page_def
  by (cases "f q limit (num_mul (num_sub page (Num 1)) limit) (users s)"; cases "c q (users s)")
    (simp_all add: internal_error_def fail_def)

lemma services_page_status:
  "status (services_page f c s q srt page limit flt) = 200
   \<or> status (services_page f c s q srt page limit flt) = 500"
  unfolding services_page_def
  by (cases "f q srt limit (num_mul (num_sub page (Num 1)) limit) (services s)";
      cases "c q (services s)")
    (simp_all add: internal_error_def fail_def)

lemma getUsers_status:
  assumes "p_ubicacion p = None \<or> (\<exists>u. p_ubicacion p = Some (QStr u))"
  shows "status (getUsers f c s p) = 200 \<or> status (getUsers f c s p) = 500"
proof -
  obtain g where g: "geo_query (p_ubicacion p) (p_radio p) = Inr g"
    using assms geo_query_string geo_query_None by metis
  show ?thesis unfolding getUsers_def g using users_page_status by simp
qed

lemma getServices_status:
  assumes "l_ubicacion p = None \<or> (\<exists>u. l_ubicacion p = Some (QStr u))"
  shows "status (getServices f c s p) = 200 \<or> status (getServices f c s p) = 500"
proof -
  obtain g where g: "geo_query (l_ubicacion p) (l_radio p) = Inr g"
    using assms geo_query_string geo_query_None by metis
  show ?thesis unfolding getServices_def g using services_page_status by simp
qed

lemma getUsers_throws:
  assumes "p_ubicacion p = Some v" "\<forall>u. v \<noteq> QStr u"
  shows "getUsers f c s p = formato_invalido"
proof -
  obtain err where "geo_query (p_ubicacion p) (p_radio p) = Inl err"
    using geo_query_throws [OF assms(2)] assms(1) by metis
  then show ?thesis by (simp add: getUsers_def)
qed

lemma getServices_throws:
  assumes "l_ubicacion p = Some v" "\<forall>u. v \<noteq> QStr u"
  shows "getServices f c s p = formato_invalido"
proof -
  obtain err where "geo_query (l_ubicacion p) (l_radio p) = Inl err"
    using geo_query_throws [OF assms(2)] assms(1) by metis
  then show ?thesis by (simp add: getServices_def)
qed

lemma user_filter_ubicacion: "user_filter (p\<lparr>p_ubicacion := v\<rparr>) g = user_filter p g"
proof -
  have "p_rol (p\<lparr>p_ubicacion := v\<rparr>) = p_rol p" by simp
  then show ?thesis by (simp only: user_filter_def)
qed

lemma service_filter_ubicacion: "service_filter (p\<lparr>l_ubicacion := v\<rparr>) g = service_filter p g"
proof -
  have "l_categoria (p\<lparr>l_ubicacion := v\<rparr>) = l_categoria p"
    "l_estado (p\<lparr>l_ubicacion := v\<rparr>) = l_estado p" by simp_all
  then show ?thesis by (simp only: service_filter_def)
qed

lemma sortOptions_ubicacion: "sortOptions (p\<lparr>l_ubicacion := v\<rparr>) = sortOptions p"
proof -
  have "l_ordenarPor (p\<lparr>l_ubicacion := v\<rparr>) = l_ordenarPor p"
    "l_orden (p\<lparr>l_ubicacion := v\<rparr>) = l_orden p" by simp_all
  then show ?thesis by (simp only: sortOptions_def)
qed

lemma getUsers_NaN:
  assumes "p_ubicacion p = Some (QStr u)"
    and "num_isNaN (fst (parsed_ubicacion u)) \<or> num_isNaN (snd (parsed_ubicacion u))"
  shows "getUsers f c s p = getUsers f c s (p\<lparr>p_ubicacion := None\<rparr>)"
  using geo_query_NaN [OF assms(2)] assms(1)
  by (simp add: getUsers_def geo_query_None user_filter_ubicacion)

lemma services_page_flt:
  "status (services_page f c s q srt page limit flt)
     = status (services_page f c s q srt page limit flt')
   \<and> data_field ''services'' (services_page f c s q srt page limit flt)
     = data_field ''services'' (services_page f c s q srt page limit flt')
   \<and> data_field ''pagination'' (services_page f c s q srt page limit flt)
     = data_field ''pagination'' (services_page f c s q srt page limit flt')"
  unfolding services_page_def
  by (cases "f q srt limit (num_mul (num_sub page (Num 1)) limit) (services s)";
      cases "c q (services s)")
    (simp_all add: data_field_def json_get_def)

lemma getServices_NaN:
  assumes "l_ubicacion p = Some (QStr u)"
    and "num_isNaN (fst (parsed_ubicacion u)) \<or> num_isNaN (snd (parsed_ubicacion u))"
  shows "status (getServices f c s p) = status (getServices f c s (p\<lparr>l_ubicacion := None\<rparr>))
    \<and> data_field ''services'' (getServices f c s p)
        = data_field ''services'' (getServices f c s (p\<lparr>l_ubicacion := None\<rparr>))
    \<and> data_field ''pagination'' (getServices f c s p)
        = data_field ''pagination'' (getServices f c s (p\<lparr>l_ubicacion := None\<rparr>))"
proof -
  have a: "getServices f c s p = services_page f c s (service_filter p None) (sortOptions p)
           (int_param 1 (l_page p)) (int_param 10 (l_limit p)) (filters p)"
    using geo_query_NaN [OF assms(2)] assms(1) by (simp add: getServices_def)
  have b: "getServices f c s (p\<lparr>l_ubicacion := None\<rparr>) =
      services_page f c s (service_filter p None) (sortOptions p)
           (int_param 1 (l_page p)) (int_param 10 (l_limit p)) (filters (p\<lparr>l_ubicacion := None\<rparr>))"
    by (simp add: getServices_def geo_query_None service_filter_ubicacion sortOptions_ubicacion)
  show ?thesis unfolding a b by (rule services_page_flt)
qed

lemma parsed_abc: "parsed_ubicacion ''abc,def'' = (NaN, NaN)"
  by (simp add: parsed_ubicacion_def trim_def js_index_def parseFloat_def decimal_prefix_def
      take_sign_def is_space_def is_digit_def)

lemma parsed_single: "parsed_ubicacion ''5'' = (Num 5, NaN)"
  by (simp add: parsed_ubicacion_def trim_def js_index_def parseFloat_def decimal_prefix_def
      take_sign_def is_space_def is_digit_def nat_of_digits_def digit_val_def take_exponent_def
      scale10_def)

lemma parsed_infinity: "parsed_ubicacion ''Infinity,0'' = (PosInf, Num 0)"
  by (simp add: parsed_ubicacion_def trim_def js_index_def parseFloat_def decimal_prefix_def
      take_sign_def is_space_def is_digit_def nat_of_digits_def digit_val_def take_exponent_def
      scale10_def)

lemma geo_infinity: "geo_query (Some (QStr ''Infinity,0'')) None =
    Inr (Some \<lparr>near_lon = PosInf, near_lat = Num 0, maxDistance = Num 10000\<rparr>)"
  by (simp add: geo_query_def parsed_infinity num_isNaN_def radio_number_def
      num_mul_def)

lemma ceiling_tenth: "\<lceil>(1::real) / 10\<rceil> = 1"
  by (rule ceiling_unique) simp_all

lemma getUsers_no_params:
  "getUsers sample_find_users sample_count_users ana_store no_params =
     \<lparr>status = 200, body = JObj [(''success'', JBool True),
        (''message'', JStr ''Usuarios obtenidos exitosamente''),
        (''data'', JObj [(''users'', JArr [user_selected 1 ana_doc]),
           (''pagination'', JObj [(''currentPage'', JNum 1), (''totalPages'', JNum 1),
              (''totalUsers'', JNum 1), (''hasNext'', JBool False),
              (''hasPrev'', JBool False)])])]\<rparr>"
  by (simp add: getUsers_def no_params_def geo_query_None users_page_def user_filter_def
      truthy_def int_param_def num_sub_def num_neg_def num_add_def num_mul_def
      sample_find_users_def sample_count_users_def sample_user_match_def window_def ana_store_def
      pagination_def json_number_def num_ceil_def num_div_def num_lt_def ceiling_tenth)

lemma getUsers_infinity:
  "getUsers sample_find_users sample_count_users ana_store
       (no_params\<lparr>p_ubicacion := Some (QStr ''Infinity,0'')\<rparr>) =
     \<lparr>status = 200, body = JObj [(''success'', JBool True),
        (''message'', JStr ''Usuarios obtenidos exitosamente''),
        (''data'', JObj [(''users'', JArr []),
           (''pagination'', JObj [(''currentPage'', JNum 1), (''totalPages'', JNum 0),
              (''totalUsers'', JNum 0), (''hasNext'', JBool False),
              (''hasPrev'', JBool False)])])]\<rparr>"
  by (simp add: getUsers_def no_params_def geo_infinity users_page_def user_filter_def
      truthy_def int_param_def num_sub_def num_neg_def num_add_def num_mul_def
      sample_find_users_def sample_count_users_def sample_user_match_def window_def ana_store_def
      pagination_def json_number_def num_ceil_def num_div_def num_lt_def)

text \<open>
  C10, where the claim fails. The query \<open>?ubicacion=1,2&ubicacion=3,4\<close> is parsed into
  the array \<open>["1,2", "3,4"]\<close>, which does not parse into two finite numbers and has no
  \<open>split\<close>: the call throws inside the \<open>try\<close>, and both list handlers return the 400
  of its \<open>catch\<close>, so that branch is reachable. And the string \<open>Infinity,0\<close> does not
  parse into two finite numbers either, but \<open>isNaN(Infinity)\<close> is false, so the filter
  is built and the page is the one of the filtered query, not the one of the request
  without \<open>ubicacion\<close>.
\<close>

theorem list_ubicacion_counterexample:
  "getUsers sample_find_users sample_count_users ana_store
       (no_params\<lparr>p_ubicacion := Some (QArr [QStr ''1,2'', QStr ''3,4''])\<rparr>) = formato_invalido
   \<and> getServices sample_find_services sample_count_services store0
       (no_list_params\<lparr>l_ubicacion := Some (QArr [QStr ''1,2'', QStr ''3,4''])\<rparr>) = formato_invalido
   \<and> formato_invalido = fail 400 (''Formato de ubicaci'' @ o_acute @ ''n inv'' @ a_acute
       @ ''lido. Use: longitud,latitud'')
   \<and> parsed_ubicacion ''Infinity,0'' = (PosInf, Num 0)
   \<and> geo_query (Some (QStr ''Infinity,0'')) None =
       Inr (Some \<lparr>near_lon = PosInf, near_lat = Num 0, maxDistance = Num 10000\<rparr>)
   \<and> data_field ''users'' (getUsers sample_find_users sample_count_users ana_store
         (no_params\<lparr>p_ubicacion := Some (QStr ''Infinity,0'')\<rparr>)) = Some (JArr [])
   \<and> data_field ''users'' (getUsers sample_find_users sample_count_users ana_store no_params)
       = Some (JArr [user_selected 1 ana_doc])"
proof -
  have a: "getUsers sample_find_users sample_count_users ana_store
       (no_params\<lparr>p_ubicacion := Some (QArr [QStr ''1,2'', QStr ''3,4''])\<rparr>) = formato_invalido"
    by (simp add: getUsers_def geo_query_def)
  have b: "getServices sample_find_services sample_count_services store0
       (no_list_params\<lparr>l_ubicacion := Some (QArr [QStr ''1,2'', QStr ''3,4''])\<rparr>) = formato_invalido"
    by (simp add: getServices_def geo_query_def)
  have c: "data_field ''users'' (getUsers sample_find_users sample_count_users ana_store
         (no_params\<lparr>p_ubicacion := Some (QStr ''Infinity,0'')\<rparr>)) = Some (JArr [])"
    unfolding getUsers_infinity by (simp add: data_field_def json_get_def)
  have d: "data_field ''users'' (getUsers sample_find_users sample_count_users ana_store no_params)
       = Some (JArr [user_selected 1 ana_doc])"
    unfolding getUsers_no_params by (simp add: data_field_def json_get_def)
  from a b formato_invalido_def parsed_infinity geo_infinity c d show ?thesis
    by (intro conjI)
qed

text \<open>
  C10, amended. When \<open>ubicacion\<close> is absent or a string, whatever the other query
  strings and the query engine, \<open>getUsers\<close> and \<open>getServices\<close> answer 200 or 500 and
  never the 400 of the \<open>catch\<close> around the parsing. When \<open>parseFloat\<close> gives \<open>NaN\<close> for
  the longitude or for the latitude of the string, no geographic filter is built:
  \<open>getUsers\<close> answers as it does without \<open>ubicacion\<close>, and \<open>getServices\<close> returns the
  same status, page and pagination as without it (its \<open>filters\<close> field echoes the
  string). When \<open>ubicacion\<close> is an array or an object, both handlers answer that 400.
\<close>

theorem unparsable_ubicacion_omits_filter:
  "(p_ubicacion p = None \<or> (\<exists>u. p_ubicacion p = Some (QStr u)) \<longrightarrow>
      status (getUsers f c s p) \<in> {200, 500} \<and> getUsers f c s p \<noteq> formato_invalido)
   \<and> (l_ubicacion q = None \<or> (\<exists>u. l_ubicacion q = Some (QStr u)) \<longrightarrow>
      status (getServices f' c' s q) \<in> {200, 500} \<and> getServices f' c' s q \<noteq> formato_invalido)
   \<and> (\<forall>u. p_ubicacion p = Some (QStr u)
         \<and> (num_isNaN (fst (parsed_ubicacion u)) \<or> num_isNaN (snd (parsed_ubicacion u))) \<longrightarrow>
         getUsers f c s p = getUsers f c s (p\<lparr>p_ubicacion := None\<rparr>))
   \<and> (\<forall>u. l_ubicacion q = Some (QStr u)
         \<and> (num_isNaN (fst (parsed_ubicacion u)) \<or> num_isNaN (snd (parsed_ubicacion u))) \<longrightarrow>
         status (getServices f' c' s q) = status (getServices f' c' s (q\<lparr>l_ubicacion := None\<rparr>))
         \<and> data_field ''services'' (getServices f' c' s q)
             = data_field ''services'' (getServices f' c' s (q\<lparr>l_ubicacion := None\<rparr>))
         \<and> data_field ''pagination'' (getServices f' c' s q)
             = data_field ''pagination'' (getServices f' c' s (q\<lparr>l_ubicacion := None\<rparr>)))
   \<and> (\<forall>v. p_ubicacion p = Some v \<and> (\<forall>u. v \<noteq> QStr u) \<longrightarrow>
         getUsers f c s p = formato_invalido)
   \<and> (\<forall>v. l_ubicacion q = Some v \<and> (\<forall>u. v \<noteq> QStr u) \<longrightarrow>
         getServices f' c' s q = formato_invalido)"
proof -
  have f: "status formato_invalido = 400" by (simp add: formato_invalido_def fail_def)
  have a: "status (getUsers f c s p) \<in> {200, 500} \<and> getUsers f c s p \<noteq> formato_invalido"
    if "p_ubicacion p = None \<or> (\<exists>u. p_ubicacion p = Some (QStr u))"
    using getUsers_status [OF that, of f c s] f by auto
  have b: "status (getServices f' c' s q) \<in> {200, 500}
      \<and> getServices f' c' s q \<noteq> formato_invalido"
    if "l_ubicacion q = None \<or> (\<exists>u. l_ubicacion q = Some (QStr u))"
    using getServices_status [OF that, of f' c' s] f by auto
  from a b show ?thesis
    by (intro conjI allI impI; (elim conjE)?)
      (simp_all add: getUsers_NaN getServices_NaN getUsers_throws getServices_throws)
qed

theorem unparsable_ubicacion_omits_filter_witness:
  "getUsers sample_find_users sample_count_users store0
       (no_params\<lparr>p_ubicacion := Some (QStr ''abc,def'')\<rparr>)
     = getUsers sample_find_users sample_count_users store0
         (no_params\<lparr>p_ubicacion := Some (QStr ''abc,def''), p_ubicacion := None\<rparr>)
   \<and> data_field ''services'' (getServices sample_find_services sample_count_services store0
         (no_list_params\<lparr>l_ubicacion := Some (QStr ''5'')\<rparr>))
     = data_field ''services'' (getServices sample_find_services sample_count_services store0
         (no_list_params\<lparr>l_ubicacion := Some (QStr ''5''), l_ubicacion := None\<rparr>))
   \<and> getUsers sample_find_users sample_count_users store0
         (no_params\<lparr>p_ubicacion := Some (QStr ''abc,def'')\<rparr>) \<noteq> formato_invalido
   \<and> getServices sample_find_services sample_count_services store0
         (no_list_params\<lparr>l_ubicacion := Some (QStr ''5'')\<rparr>) \<noteq> formato_invalido"
proof -
  have a: "p_ubicacion (no_params\<lparr>p_ubicacion := Some (QStr ''abc,def'')\<rparr>)
        = Some (QStr ''abc,def'')
      \<and> (num_isNaN (fst (parsed_ubicacion ''abc,def''))
           \<or> num_isNaN (snd (parsed_ubicacion ''abc,def'')))"
    by (simp add: parsed_abc num_isNaN_def)
  have b: "l_ubicacion (no_list_params\<lparr>l_ubicacion := Some (QStr ''5'')\<rparr>) = Some (QStr ''5'')
      \<and> (num_isNaN (fst (parsed_ubicacion ''5''))
           \<or> num_isNaN (snd (parsed_ubicacion ''5'')))"
    by (simp add: parsed_single num_isNaN_def)
  have sa: "p_ubicacion (no_params\<lparr>p_ubicacion := Some (QStr ''abc,def'')\<rparr>) = None
      \<or> (\<exists>u. p_ubicacion (no_params\<lparr>p_ubicacion := Some (QStr ''abc,def'')\<rparr>)
            = Some (QStr u))"
    by simp
  have sb: "l_ubicacion (no_list_params\<lparr>l_ubicacion := Some (QStr ''5'')\<rparr>) = None
      \<or> (\<exists>u. l_ubicacion (no_list_params\<lparr>l_ubicacion := Some (QStr ''5'')\<rparr>)
            = Some (QStr u))"
    by simp
  note t = unparsable_ubicacion_omits_filter [of
      "no_params\<lparr>p_ubicacion := Some (QStr ''abc,def'')\<rparr>" sample_find_users
      sample_count_users store0
      "no_list_params\<lparr>l_ubicacion := Some (QStr ''5'')\<rparr>" sample_find_services
      sample_count_services]
  from t [THEN conjunct2, THEN conjunct2, THEN conjunct1, THEN spec, THEN mp, OF a]
    t [THEN conjunct2, THEN conjunct2, THEN conjunct2, THEN conjunct1,
        THEN spec, THEN mp, OF b, THEN conjunct2, THEN conjunct1]
    t [THEN conjunct1, THEN mp, OF sa, THEN conjunct2]
    t [THEN conjunct2, THEN conjunct1, THEN mp, OF sb, THEN conjunct2]
  show ?thesis by (intro conjI)
qed

section \<open>Properties of serialisation\<close>
































lemma getServiceById_mudanza:
  "getServiceById store0 (ObjectId 11) =
     \<lparr>status = 200, body = JObj [(''success'', JBool True),
        (''message'', JStr ''Servicio obtenido exitosamente''),
        (''data'', JObj [(''service'', JObj [(''_id'', JId 11), (''titulo'', JStr ''Mudanza''),
           (''descripcion'', JStr ''Llevar cajas''), (''categoria'', JStr ''transporte''),
           (''estado'', JStr ''completado''),
           (''creadoPor'', JObj [(''_id'', JId 2), (''nombre'', JStr ''Luis''),
              (''email'', JStr ''luis@x.com''), (''telefono'', JStr ''555 1234''),
              (''rol'', JStr ''solicitante''),
              (''ubicacion'', JObj [(''type'', JStr ''Point''),
                 (''coordinates'', JArr [JNum (- 99.1332), JNum 19.4326])])]),
           (''ubicacion'', JObj [(''type'', JStr ''Point''),
                 (''coordinates'', JArr [JNum (- 99.1332), JNum 19.4326])]),
           (''precio'', JNum 250), (''moneda'', JStr ''MXN''), (''duracionEstimada'', JNum 3),
           (''unidadDuracion'', JStr ''horas'')])])]\<rparr>"
  by (simp add: getServiceById_def store0_def findById_def lookup_def mudanza_def
      service_toJSON_def populate_def luis_def user_toObject_def json_coords_def)



end
